theory Spec2Isabelle
  imports Main "HOL-Library.Word"
begin

unbundle bit_operations_syntax

section \<open>GoDis: a linear-sweep disassembler for a subset of 32-bit x86\<close>

text \<open>
  A shallow embedding of the packages \<^verbatim>\<open>datatypes\<close>, \<^verbatim>\<open>encoders\<close>,
  \<^verbatim>\<open>operations\<close> and of the driver in package \<^verbatim>\<open>main\<close>. Go's \<^verbatim>\<open>byte\<close> is an 8-bit
  word, Go's \<^verbatim>\<open>int\<close> is modelled as an unbounded integer (offsets and lengths of an
  in-memory file never come near 64 bits), errors are values, a nil-pointer dereference
  is the outcome \<open>Panic\<close>, and \<^verbatim>\<open>*datatypes.Instruction\<close> pointers are addresses into an
  explicit heap.
\<close>

type_synonym byte = "8 word"

subsection \<open>Errors\<close>

text \<open>
  \<^verbatim>\<open>io.EOF\<close>, \<^verbatim>\<open>io.ErrUnexpectedEOF\<close> and \<^verbatim>\<open>ONF\<close> are sentinel values compared by
  identity; every \<^verbatim>\<open>fmt.Errorf\<close> value is distinct from them and carries its message.
\<close>

datatype error = EOF | ErrUnexpectedEOF | ONF | Errorf string

fun Error :: "error \<Rightarrow> string" where
  "Error EOF = ''EOF''"
| "Error ErrUnexpectedEOF = ''unexpected EOF''"
| "Error ONF = ''ONF''"
| "Error (Errorf s) = s"

subsection \<open>Formatting verbs of package fmt\<close>

definition hexdigit :: "nat \<Rightarrow> char" where
  "hexdigit d = ''0123456789abcdef'' ! d"

fun hexstr :: "nat \<Rightarrow> string" where
  "hexstr n = (if n < 16 then [hexdigit n] else hexstr (n div 16) @ [hexdigit (n mod 16)])"

declare hexstr.simps [simp del]

fun decstr :: "nat \<Rightarrow> string" where
  "decstr n = (if n < 10 then [hexdigit n] else decstr (n div 10) @ [hexdigit (n mod 10)])"

declare decstr.simps [simp del]

definition zero_pad :: "nat \<Rightarrow> string \<Rightarrow> string" where
  "zero_pad w s = replicate (w - length s) CHR ''0'' @ s"

text \<open>
  The verb \<^verbatim>\<open>%0<w>x\<close> applied to a signed integer: a negative value prints a minus
  sign and the magnitude, and the sign counts towards the width.
\<close>

definition fmt_0x :: "nat \<Rightarrow> int \<Rightarrow> string" where
  "fmt_0x w i = (if i < 0 then ''-'' @ zero_pad (w - 1) (hexstr (nat (- i)))
                 else zero_pad w (hexstr (nat i)))"

subsection \<open>bytes.Buffer\<close>

text \<open>
  The part of Go's \<^verbatim>\<open>bytes.Buffer\<close> the program uses: the contents \<open>buf\<close>, the read
  position \<open>off\<close>, and \<open>lastRead\<close>, which says whether the last operation was a
  successful read (so that \<^verbatim>\<open>UnreadByte\<close> may step back).
\<close>

datatype readOp = opRead | opInvalid

record Buffer =
  buf :: "byte list"
  off :: nat
  lastRead :: readOp

definition Len :: "Buffer \<Rightarrow> nat" where
  "Len b = length (buf b) - off b"

definition Reset :: "Buffer \<Rightarrow> Buffer" where
  "Reset b = b\<lparr>buf := [], off := 0, lastRead := opInvalid\<rparr>"

definition ReadByte :: "Buffer \<Rightarrow> (error + byte) \<times> Buffer" where
  "ReadByte b =
     (if length (buf b) \<le> off b then (Inl EOF, Reset b)
      else (Inr (buf b ! off b), b\<lparr>off := off b + 1, lastRead := opRead\<rparr>))"

definition UnreadByte :: "Buffer \<Rightarrow> Buffer" where
  "UnreadByte b =
     (if lastRead b = opInvalid then b
      else b\<lparr>off := (if off b > 0 then off b - 1 else off b), lastRead := opInvalid\<rparr>)"

definition Next :: "Buffer \<Rightarrow> nat \<Rightarrow> byte list \<times> Buffer" where
  "Next b n =
     (let m = Len b;
          n' = (if n > m then m else n)
      in (take n' (drop (off b) (buf b)),
          b\<lparr>off := off b + n', lastRead := (if n' > 0 then opRead else opInvalid)\<rparr>))"

text \<open>The buffer \<^verbatim>\<open>main\<close> hands to the sweep: the whole file, nothing read yet.\<close>

definition NewBuffer :: "byte list \<Rightarrow> Buffer" where
  "NewBuffer bs = \<lparr>buf = bs, off = 0, lastRead = opInvalid\<rparr>"

text \<open>The bytes not yet read.\<close>

definition rest :: "Buffer \<Rightarrow> byte list" where
  "rest b = drop (off b) (buf b)"

subsection \<open>Package datatypes\<close>

record Prefix =
  pLiteral :: byte
  pMnemonic :: string

text \<open>\<^verbatim>\<open>AddressMode\<close> is a byte, \<^verbatim>\<open>Register\<close> an int.\<close>

record ModRm =
  mLiteral :: byte
  Mod :: byte
  Reg :: int
  RM :: int

definition AM_REG :: byte where "AM_REG = 0"
definition AM_BYTE_OFFSET :: byte where "AM_BYTE_OFFSET = 1"
definition AM_DWORD_OFFSET :: byte where "AM_DWORD_OFFSET = 2"
definition AM_DIRECT :: byte where "AM_DIRECT = 3"

definition REG_EBP :: int where "REG_EBP = 5"

text \<open>
  Sizes are Go ints that the opcode table only ever fills with 0, 1, 2 or 4; they are
  natural numbers here (a negative size would make \<^verbatim>\<open>Buffer.Next\<close> panic).
\<close>

record Instruction =
  Literal :: "byte list"
  Offset :: int
  Label :: string
  Pre :: "Prefix option"
  Mnemonic :: string
  Op :: byte
  Modrm :: "ModRm option"
  Displacement :: "byte list"
  Immediate :: "byte list"
  DispSize :: nat
  ImmSize :: nat
  Operands :: string

text \<open>The zero value \<^verbatim>\<open>&datatypes.Instruction{}\<close>.\<close>

definition new_Instruction :: Instruction where
  "new_Instruction = \<lparr>Literal = [], Offset = 0, Label = '''', Pre = None, Mnemonic = '''',
     Op = 0, Modrm = None, Displacement = [], Immediate = [], DispSize = 0, ImmSize = 0,
     Operands = ''''\<rparr>"

definition Registers :: "int \<rightharpoonup> string" where
  "Registers = [0 \<mapsto> ''eax'', 1 \<mapsto> ''ecx'', 2 \<mapsto> ''edx'', 3 \<mapsto> ''ebx'',
                4 \<mapsto> ''esp'', 5 \<mapsto> ''ebp'', 6 \<mapsto> ''esi'', 7 \<mapsto> ''edi'']"

text \<open>Indexing a Go map of strings: a missing key reads as the empty string.\<close>

definition Registers_at :: "int \<Rightarrow> string" where
  "Registers_at r = (case Registers r of Some s \<Rightarrow> s | None \<Rightarrow> '''')"

definition ParseModRM :: "byte \<Rightarrow> ModRm" where
  "ParseModRM modrm =
     \<lparr>mLiteral = modrm,
      Mod = drop_bit 6 modrm AND 3,
      Reg = uint (drop_bit 3 modrm AND 7),
      RM = uint (modrm AND 7)\<rparr>"

definition ParseDisplacement ::
  "ModRm option \<Rightarrow> Buffer \<Rightarrow> nat \<Rightarrow> (byte list \<times> error option) \<times> Buffer" where
  "ParseDisplacement modrm data sz =
     (case modrm of
        Some m \<Rightarrow>
          if Mod m = AM_REG then
            (if RM m = REG_EBP then
               (let (displacement, data') = Next data 4
                in if length displacement \<noteq> 4 then ((displacement, Some ErrUnexpectedEOF), data')
                   else ((displacement, None), data'))
             else (([], None), data))
          else if Mod m = AM_BYTE_OFFSET then
            (case ReadByte data of
               (Inl e, data') \<Rightarrow> (([], Some ErrUnexpectedEOF), data')
             | (Inr disp, data') \<Rightarrow> (([disp], None), data'))
          else if Mod m = AM_DWORD_OFFSET then
            (let (displacement, data') = Next data 4
             in if length displacement \<noteq> 4 then ((displacement, Some ErrUnexpectedEOF), data')
                else ((displacement, None), data'))
          else if Mod m = AM_DIRECT then (([], None), data)
          else (([], Some (Errorf ''Bad Address Mode.'')), data)
      | None \<Rightarrow>
          (let (displacement, data') = Next data sz
           in if length displacement \<noteq> sz then ((displacement, Some ErrUnexpectedEOF), data')
              else ((displacement, None), data')))"

definition ParseImmediate :: "Buffer \<Rightarrow> nat \<Rightarrow> (byte list \<times> error option) \<times> Buffer" where
  "ParseImmediate data sz =
     (let (immediate, data') = Next data sz
      in ((immediate, if length immediate \<noteq> sz then Some ErrUnexpectedEOF else None), data'))"

text \<open>
  \<^verbatim>\<open>binary.LittleEndian.Uint16\<close> and \<^verbatim>\<open>Uint32\<close>, as the library computes them.
\<close>

definition Uint16 :: "byte \<Rightarrow> byte \<Rightarrow> 16 word" where
  "Uint16 b0 b1 = ucast b0 OR push_bit 8 (ucast b1)"

definition Uint32 :: "byte \<Rightarrow> byte \<Rightarrow> byte \<Rightarrow> byte \<Rightarrow> 32 word" where
  "Uint32 b0 b1 b2 b3 =
     ucast b0 OR push_bit 8 (ucast b1) OR push_bit 16 (ucast b2) OR push_bit 24 (ucast b3)"

definition bad_length :: "nat \<Rightarrow> error" where
  "bad_length n = Errorf (''Invalid byte slice length for integer conversion: '' @ decstr n)"

fun BytesToIntSigned :: "byte list \<Rightarrow> int \<times> error option" where
  "BytesToIntSigned [b0] = (sint b0, None)"
| "BytesToIntSigned [b0, b1] = (sint (Uint16 b0 b1), None)"
| "BytesToIntSigned [b0, b1, b2, b3] = (sint (Uint32 b0 b1 b2 b3), None)"
| "BytesToIntSigned intbytes = (0, Some (bad_length (length intbytes)))"

fun BytesToInt :: "byte list \<Rightarrow> int \<times> error option" where
  "BytesToInt [b0] = (uint b0, None)"
| "BytesToInt [b0, b1] = (uint (Uint16 b0 b1), None)"
| "BytesToInt [b0, b1, b2, b3] = (uint (Uint32 b0 b1 b2 b3), None)"
| "BytesToInt intbytes = (0, Some (bad_length (length intbytes)))"

definition StringifyIntegerBytes :: "byte list \<Rightarrow> string" where
  "StringifyIntegerBytes intbytes =
     (case BytesToInt intbytes of
        (integer, Some err) \<Rightarrow> ''''
      | (integer, None) \<Rightarrow> ''0x'' @ fmt_0x 8 integer)"

definition StringifyRM :: "ModRm option \<Rightarrow> byte list \<Rightarrow> string" where
  "StringifyRM modrm disp =
     (case modrm of
        Some m \<Rightarrow>
          (let rm = Registers_at (RM m)
           in if Mod m = AM_REG then
                (if RM m = REG_EBP then ''[ '' @ StringifyIntegerBytes disp @ '' ]''
                 else ''[ '' @ rm @ '' ]'')
              else if Mod m = AM_BYTE_OFFSET \<or> Mod m = AM_DWORD_OFFSET then
                ''[ '' @ rm @ ''+'' @ StringifyIntegerBytes disp @ '' ]''
              else if Mod m = AM_DIRECT then rm
              else '''')
      | None \<Rightarrow> '''')"

subsection \<open>Package encoders\<close>

text \<open>
  The ten encoder kinds. Each \<^verbatim>\<open>Encode\<close> mutates the buffer and the instruction it is
  handed, and both are returned here together with the error. The instruction is the
  only object an encoder writes to, so it is passed as a value and stored back by the
  driver.
\<close>

datatype Encoder =
  Enc_M | Enc_MI | Enc_MR | Enc_RM | Enc_RMI | Enc_NP | Enc_O | Enc_I | Enc_OI | Enc_D

fun Encoding :: "Encoder \<Rightarrow> string" where
  "Encoding Enc_M = ''M''"
| "Encoding Enc_MI = ''MI''"
| "Encoding Enc_MR = ''MR''"
| "Encoding Enc_RM = ''RM''"
| "Encoding Enc_RMI = ''RMI''"
| "Encoding Enc_NP = ''NP''"
| "Encoding Enc_O = ''O''"
| "Encoding Enc_I = ''I''"
| "Encoding Enc_OI = ''OI''"
| "Encoding Enc_D = ''D''"

definition M_Encode :: "Buffer \<Rightarrow> Instruction \<Rightarrow> error option \<times> Instruction \<times> Buffer" where
  "M_Encode data inst =
     (case ReadByte data of
        (Inl e, data1) \<Rightarrow> (Some ErrUnexpectedEOF, inst, data1)
      | (Inr next, data1) \<Rightarrow>
          (let inst1 = inst\<lparr>Modrm := Some (ParseModRM next)\<rparr>;
               inst2 = inst1\<lparr>Literal := Literal inst1 @ [mLiteral (ParseModRM next)]\<rparr>;
               ((displacement, err), data2) = ParseDisplacement (Modrm inst2) data1 0;
               inst3 = inst2\<lparr>Displacement := displacement\<rparr>;
               inst4 = inst3\<lparr>Literal := Literal inst3 @ Displacement inst3\<rparr>
           in (err, inst4, data2)))"

definition MI_Encode :: "Buffer \<Rightarrow> Instruction \<Rightarrow> error option \<times> Instruction \<times> Buffer" where
  "MI_Encode data inst =
     (case M_Encode data inst of
        (Some err, inst1, data1) \<Rightarrow> (Some err, inst1, data1)
      | (None, inst1, data1) \<Rightarrow>
          (let ((immediate, err), data2) = ParseImmediate data1 4;
               inst2 = inst1\<lparr>Immediate := immediate\<rparr>;
               inst3 = inst2\<lparr>Literal := Literal inst2 @ Immediate inst2\<rparr>
           in (err, inst3, data2)))"

definition I_Encode :: "Buffer \<Rightarrow> Instruction \<Rightarrow> error option \<times> Instruction \<times> Buffer" where
  "I_Encode data inst =
     (let ((immediate, err), data1) = ParseImmediate data (ImmSize inst);
          inst1 = inst\<lparr>Immediate := immediate\<rparr>;
          inst2 = inst1\<lparr>Literal := Literal inst1 @ Immediate inst1\<rparr>
      in (err, inst2, data1))"

definition OI_Encode :: "Buffer \<Rightarrow> Instruction \<Rightarrow> error option \<times> Instruction \<times> Buffer" where
  "OI_Encode data inst =
     (let ((immediate, err), data1) = ParseImmediate data 4;
          inst1 = inst\<lparr>Immediate := immediate\<rparr>;
          inst2 = inst1\<lparr>Literal := Literal inst1 @ Immediate inst1\<rparr>
      in (err, inst2, data1))"

definition D_Encode :: "Buffer \<Rightarrow> Instruction \<Rightarrow> error option \<times> Instruction \<times> Buffer" where
  "D_Encode data inst =
     (let ((displacement, err), data1) = ParseDisplacement (Modrm inst) data (DispSize inst);
          inst1 = inst\<lparr>Displacement := displacement\<rparr>;
          inst2 = inst1\<lparr>Literal := Literal inst1 @ Displacement inst1\<rparr>
      in (err, inst2, data1))"

fun Encoder_Encode ::
  "Encoder \<Rightarrow> Buffer \<Rightarrow> Instruction \<Rightarrow> error option \<times> Instruction \<times> Buffer" where
  "Encoder_Encode Enc_M data inst = M_Encode data inst"
| "Encoder_Encode Enc_MI data inst = MI_Encode data inst"
| "Encoder_Encode Enc_MR data inst = M_Encode data inst"
| "Encoder_Encode Enc_RM data inst = M_Encode data inst"
| "Encoder_Encode Enc_RMI data inst = MI_Encode data inst"
| "Encoder_Encode Enc_NP data inst = (None, inst, data)"
| "Encoder_Encode Enc_O data inst = (None, inst, data)"
| "Encoder_Encode Enc_I data inst = I_Encode data inst"
| "Encoder_Encode Enc_OI data inst = OI_Encode data inst"
| "Encoder_Encode Enc_D data inst = D_Encode data inst"

text \<open>
  \<^verbatim>\<open>StringifyOperands\<close> returns the operand string, the branch target, whether there
  is one, and an error. The \<^verbatim>\<open>MR\<close>, \<^verbatim>\<open>RM\<close> and \<^verbatim>\<open>RMI\<close> stringifiers read
  \<^verbatim>\<open>inst.Modrm.Reg\<close> without a nil check: with no ModR/M they panic (\<open>None\<close>).
\<close>

fun StringifyOperands :: "Encoder \<Rightarrow> Instruction \<Rightarrow> (string \<times> int \<times> bool \<times> error option) option" where
  "StringifyOperands Enc_M inst = Some (StringifyRM (Modrm inst) (Displacement inst), 0, False, None)"
| "StringifyOperands Enc_MI inst =
     (let rm = StringifyRM (Modrm inst) (Displacement inst);
          imm = StringifyIntegerBytes (Immediate inst)
      in Some (rm @ '', '' @ imm, 0, False, None))"
| "StringifyOperands Enc_MR inst =
     (let rm = StringifyRM (Modrm inst) (Displacement inst)
      in case Modrm inst of
           None \<Rightarrow> None
         | Some m \<Rightarrow> Some (rm @ '', '' @ Registers_at (Reg m), 0, False, None))"
| "StringifyOperands Enc_RM inst =
     (let rm = StringifyRM (Modrm inst) (Displacement inst)
      in case Modrm inst of
           None \<Rightarrow> None
         | Some m \<Rightarrow> Some (Registers_at (Reg m) @ '', '' @ rm, 0, False, None))"
| "StringifyOperands Enc_RMI inst =
     (let rm = StringifyRM (Modrm inst) (Displacement inst)
      in case Modrm inst of
           None \<Rightarrow> None
         | Some m \<Rightarrow>
             (let imm = StringifyIntegerBytes (Immediate inst)
              in Some (Registers_at (Reg m) @ '', '' @ rm @ '', '' @ imm, 0, False, None)))"
| "StringifyOperands Enc_NP inst = Some ('''', 0, False, None)"
| "StringifyOperands Enc_O inst = Some (Registers_at (uint (Op inst AND 7)), 0, False, None)"
| "StringifyOperands Enc_I inst = Some (StringifyIntegerBytes (Immediate inst), 0, False, None)"
| "StringifyOperands Enc_OI inst =
     (let reg = Registers_at (uint (Op inst AND 7));
          imm = StringifyIntegerBytes (Immediate inst)
      in Some (reg @ '', '' @ imm, 0, False, None))"
| "StringifyOperands Enc_D inst =
     (let start = Offset inst + int (length (Literal inst));
          (disp, err) = BytesToIntSigned (Displacement inst);
          end = start + disp
      in Some (''offset_'' @ fmt_0x 8 end @ ''h'', end, True, err))"

subsection \<open>Package operations: the opcode table\<close>

record OpCode =
  oLiteral :: byte
  oMnemonic :: string
  Encoder :: Encoder
  ModrmReq :: bool
  ExtensionReq :: bool
  PrefixReq :: bool
  Extension :: int
  oDispSize :: nat
  oImmSize :: nat

definition Vex :: Prefix where
  "Vex = \<lparr>pLiteral = 0x0F, pMnemonic = ''''\<rparr>"

definition Repne :: Prefix where
  "Repne = \<lparr>pLiteral = 0xF2, pMnemonic = ''repne''\<rparr>"

definition Prefixes :: "byte \<rightharpoonup> Prefix" where
  "Prefixes = [0x0F \<mapsto> Vex, 0xF2 \<mapsto> Repne]"

definition allOps :: "OpCode list" where
  "allOps = [
    \<lparr>oLiteral = 0x05, oMnemonic = ''add eax,'', Encoder = Enc_I, ModrmReq = False, ExtensionReq = False,
     PrefixReq = False, Extension = 0, oDispSize = 0, oImmSize = 4\<rparr>,
    \<lparr>oLiteral = 0x81, oMnemonic = ''add'', Encoder = Enc_MI, ModrmReq = True, ExtensionReq = True,
     PrefixReq = False, Extension = 0, oDispSize = 0, oImmSize = 4\<rparr>,
    \<lparr>oLiteral = 0x01, oMnemonic = ''add'', Encoder = Enc_MR, ModrmReq = True, ExtensionReq = False,
     PrefixReq = False, Extension = 0, oDispSize = 0, oImmSize = 0\<rparr>,
    \<lparr>oLiteral = 0x03, oMnemonic = ''add'', Encoder = Enc_RM, ModrmReq = True, ExtensionReq = False,
     PrefixReq = False, Extension = 0, oDispSize = 0, oImmSize = 0\<rparr>,
    \<lparr>oLiteral = 0x25, oMnemonic = ''and eax,'', Encoder = Enc_I, ModrmReq = False, ExtensionReq = False,
     PrefixReq = False, Extension = 0, oDispSize = 0, oImmSize = 4\<rparr>,
    \<lparr>oLiteral = 0x81, oMnemonic = ''and'', Encoder = Enc_MI, ModrmReq = True, ExtensionReq = True,
     PrefixReq = False, Extension = 4, oDispSize = 0, oImmSize = 4\<rparr>,
    \<lparr>oLiteral = 0x21, oMnemonic = ''and'', Encoder = Enc_MR, ModrmReq = True, ExtensionReq = False,
     PrefixReq = False, Extension = 0, oDispSize = 0, oImmSize = 0\<rparr>,
    \<lparr>oLiteral = 0x23, oMnemonic = ''and'', Encoder = Enc_RM, ModrmReq = True, ExtensionReq = False,
     PrefixReq = False, Extension = 0, oDispSize = 0, oImmSize = 0\<rparr>,
    \<lparr>oLiteral = 0xE8, oMnemonic = ''call'', Encoder = Enc_D, ModrmReq = False, ExtensionReq = False,
     PrefixReq = False, Extension = 0, oDispSize = 4, oImmSize = 0\<rparr>,
    \<lparr>oLiteral = 0xFF, oMnemonic = ''call'', Encoder = Enc_M, ModrmReq = True, ExtensionReq = True,
     PrefixReq = False, Extension = 2, oDispSize = 0, oImmSize = 0\<rparr>,
    \<lparr>oLiteral = 0xAE, oMnemonic = ''clflush'', Encoder = Enc_M, ModrmReq = True, ExtensionReq = True,
     PrefixReq = True, Extension = 7, oDispSize = 0, oImmSize = 0\<rparr>,
    \<lparr>oLiteral = 0x3D, oMnemonic = ''cmp eax,'', Encoder = Enc_I, ModrmReq = False, ExtensionReq = False,
     PrefixReq = False, Extension = 0, oDispSize = 0, oImmSize = 4\<rparr>,
    \<lparr>oLiteral = 0x81, oMnemonic = ''cmp'', Encoder = Enc_MI, ModrmReq = True, ExtensionReq = True,
     PrefixReq = False, Extension = 7, oDispSize = 0, oImmSize = 4\<rparr>,
    \<lparr>oLiteral = 0x39, oMnemonic = ''cmp'', Encoder = Enc_MR, ModrmReq = True, ExtensionReq = False,
     PrefixReq = False, Extension = 0, oDispSize = 0, oImmSize = 0\<rparr>,
    \<lparr>oLiteral = 0x3B, oMnemonic = ''cmp'', Encoder = Enc_RM, ModrmReq = True, ExtensionReq = False,
     PrefixReq = False, Extension = 0, oDispSize = 0, oImmSize = 0\<rparr>,
    \<lparr>oLiteral = 0xFF, oMnemonic = ''dec'', Encoder = Enc_M, ModrmReq = True, ExtensionReq = True,
     PrefixReq = False, Extension = 1, oDispSize = 0, oImmSize = 0\<rparr>,
    \<lparr>oLiteral = 0x48, oMnemonic = ''dec'', Encoder = Enc_O, ModrmReq = False, ExtensionReq = False,
     PrefixReq = False, Extension = 0, oDispSize = 0, oImmSize = 0\<rparr>,
    \<lparr>oLiteral = 0xF7, oMnemonic = ''idiv'', Encoder = Enc_M, ModrmReq = True, ExtensionReq = True,
     PrefixReq = False, Extension = 7, oDispSize = 0, oImmSize = 0\<rparr>,
    \<lparr>oLiteral = 0xF7, oMnemonic = ''imul'', Encoder = Enc_M, ModrmReq = True, ExtensionReq = True,
     PrefixReq = False, Extension = 5, oDispSize = 0, oImmSize = 0\<rparr>,
    \<lparr>oLiteral = 0xAF, oMnemonic = ''imul'', Encoder = Enc_RM, ModrmReq = True, ExtensionReq = False,
     PrefixReq = True, Extension = 0, oDispSize = 0, oImmSize = 0\<rparr>,
    \<lparr>oLiteral = 0x69, oMnemonic = ''imul'', Encoder = Enc_RMI, ModrmReq = True, ExtensionReq = False,
     PrefixReq = False, Extension = 0, oDispSize = 0, oImmSize = 4\<rparr>,
    \<lparr>oLiteral = 0xFF, oMnemonic = ''inc'', Encoder = Enc_M, ModrmReq = True, ExtensionReq = True,
     PrefixReq = False, Extension = 0, oDispSize = 0, oImmSize = 0\<rparr>,
    \<lparr>oLiteral = 0x40, oMnemonic = ''inc'', Encoder = Enc_O, ModrmReq = False, ExtensionReq = False,
     PrefixReq = False, Extension = 0, oDispSize = 0, oImmSize = 0\<rparr>,
    \<lparr>oLiteral = 0xEB, oMnemonic = ''jmp'', Encoder = Enc_D, ModrmReq = False, ExtensionReq = False,
     PrefixReq = False, Extension = 0, oDispSize = 1, oImmSize = 0\<rparr>,
    \<lparr>oLiteral = 0xE9, oMnemonic = ''jmp'', Encoder = Enc_D, ModrmReq = False, ExtensionReq = False,
     PrefixReq = False, Extension = 0, oDispSize = 4, oImmSize = 0\<rparr>,
    \<lparr>oLiteral = 0xFF, oMnemonic = ''jmp'', Encoder = Enc_M, ModrmReq = True, ExtensionReq = True,
     PrefixReq = False, Extension = 4, oDispSize = 0, oImmSize = 0\<rparr>,
    \<lparr>oLiteral = 0x74, oMnemonic = ''jz'', Encoder = Enc_D, ModrmReq = False, ExtensionReq = False,
     PrefixReq = False, Extension = 0, oDispSize = 1, oImmSize = 0\<rparr>,
    \<lparr>oLiteral = 0x84, oMnemonic = ''jz'', Encoder = Enc_D, ModrmReq = False, ExtensionReq = False,
     PrefixReq = True, Extension = 0, oDispSize = 4, oImmSize = 0\<rparr>,
    \<lparr>oLiteral = 0x75, oMnemonic = ''jnz'', Encoder = Enc_D, ModrmReq = False, ExtensionReq = False,
     PrefixReq = False, Extension = 0, oDispSize = 1, oImmSize = 0\<rparr>,
    \<lparr>oLiteral = 0x85, oMnemonic = ''jnz'', Encoder = Enc_D, ModrmReq = False, ExtensionReq = False,
     PrefixReq = True, Extension = 0, oDispSize = 4, oImmSize = 0\<rparr>,
    \<lparr>oLiteral = 0x8D, oMnemonic = ''lea'', Encoder = Enc_RM, ModrmReq = True, ExtensionReq = False,
     PrefixReq = False, Extension = 0, oDispSize = 0, oImmSize = 0\<rparr>,
    \<lparr>oLiteral = 0xB8, oMnemonic = ''mov'', Encoder = Enc_OI, ModrmReq = False, ExtensionReq = False,
     PrefixReq = False, Extension = 0, oDispSize = 0, oImmSize = 4\<rparr>,
    \<lparr>oLiteral = 0xC7, oMnemonic = ''mov'', Encoder = Enc_MI, ModrmReq = True, ExtensionReq = True,
     PrefixReq = False, Extension = 0, oDispSize = 0, oImmSize = 4\<rparr>,
    \<lparr>oLiteral = 0x89, oMnemonic = ''mov'', Encoder = Enc_MR, ModrmReq = True, ExtensionReq = False,
     PrefixReq = False, Extension = 0, oDispSize = 0, oImmSize = 0\<rparr>,
    \<lparr>oLiteral = 0x8B, oMnemonic = ''mov'', Encoder = Enc_RM, ModrmReq = True, ExtensionReq = False,
     PrefixReq = False, Extension = 0, oDispSize = 0, oImmSize = 0\<rparr>,
    \<lparr>oLiteral = 0xA5, oMnemonic = ''movsd'', Encoder = Enc_NP, ModrmReq = False, ExtensionReq = False,
     PrefixReq = False, Extension = 0, oDispSize = 0, oImmSize = 0\<rparr>,
    \<lparr>oLiteral = 0xF7, oMnemonic = ''mul'', Encoder = Enc_M, ModrmReq = True, ExtensionReq = True,
     PrefixReq = False, Extension = 4, oDispSize = 0, oImmSize = 0\<rparr>,
    \<lparr>oLiteral = 0xF7, oMnemonic = ''neg'', Encoder = Enc_M, ModrmReq = True, ExtensionReq = True,
     PrefixReq = False, Extension = 3, oDispSize = 0, oImmSize = 0\<rparr>,
    \<lparr>oLiteral = 0x90, oMnemonic = ''nop'', Encoder = Enc_NP, ModrmReq = False, ExtensionReq = False,
     PrefixReq = False, Extension = 0, oDispSize = 0, oImmSize = 0\<rparr>,
    \<lparr>oLiteral = 0xF7, oMnemonic = ''not'', Encoder = Enc_M, ModrmReq = True, ExtensionReq = True,
     PrefixReq = False, Extension = 2, oDispSize = 0, oImmSize = 0\<rparr>,
    \<lparr>oLiteral = 0x0D, oMnemonic = ''or eax,'', Encoder = Enc_I, ModrmReq = False, ExtensionReq = False,
     PrefixReq = False, Extension = 0, oDispSize = 0, oImmSize = 4\<rparr>,
    \<lparr>oLiteral = 0x81, oMnemonic = ''or'', Encoder = Enc_MI, ModrmReq = True, ExtensionReq = True,
     PrefixReq = False, Extension = 1, oDispSize = 0, oImmSize = 4\<rparr>,
    \<lparr>oLiteral = 0x09, oMnemonic = ''or'', Encoder = Enc_MR, ModrmReq = True, ExtensionReq = False,
     PrefixReq = False, Extension = 0, oDispSize = 0, oImmSize = 0\<rparr>,
    \<lparr>oLiteral = 0x0B, oMnemonic = ''or'', Encoder = Enc_RM, ModrmReq = True, ExtensionReq = False,
     PrefixReq = False, Extension = 0, oDispSize = 0, oImmSize = 0\<rparr>,
    \<lparr>oLiteral = 0xE7, oMnemonic = ''out %s, eax'', Encoder = Enc_I, ModrmReq = False, ExtensionReq = False,
     PrefixReq = False, Extension = 0, oDispSize = 0, oImmSize = 1\<rparr>,
    \<lparr>oLiteral = 0x8F, oMnemonic = ''pop'', Encoder = Enc_M, ModrmReq = True, ExtensionReq = True,
     PrefixReq = False, Extension = 0, oDispSize = 0, oImmSize = 0\<rparr>,
    \<lparr>oLiteral = 0x58, oMnemonic = ''pop'', Encoder = Enc_O, ModrmReq = False, ExtensionReq = False,
     PrefixReq = False, Extension = 0, oDispSize = 0, oImmSize = 0\<rparr>,
    \<lparr>oLiteral = 0xFF, oMnemonic = ''push'', Encoder = Enc_M, ModrmReq = True, ExtensionReq = True,
     PrefixReq = False, Extension = 6, oDispSize = 0, oImmSize = 0\<rparr>,
    \<lparr>oLiteral = 0x50, oMnemonic = ''push'', Encoder = Enc_O, ModrmReq = False, ExtensionReq = False,
     PrefixReq = False, Extension = 0, oDispSize = 0, oImmSize = 0\<rparr>,
    \<lparr>oLiteral = 0x68, oMnemonic = ''push'', Encoder = Enc_I, ModrmReq = False, ExtensionReq = False,
     PrefixReq = False, Extension = 0, oDispSize = 0, oImmSize = 4\<rparr>,
    \<lparr>oLiteral = 0xA7, oMnemonic = ''cmpsd'', Encoder = Enc_NP, ModrmReq = False, ExtensionReq = False,
     PrefixReq = False, Extension = 0, oDispSize = 0, oImmSize = 0\<rparr>,
    \<lparr>oLiteral = 0xCB, oMnemonic = ''retf'', Encoder = Enc_NP, ModrmReq = False, ExtensionReq = False,
     PrefixReq = False, Extension = 0, oDispSize = 0, oImmSize = 0\<rparr>,
    \<lparr>oLiteral = 0xCA, oMnemonic = ''retf'', Encoder = Enc_I, ModrmReq = False, ExtensionReq = False,
     PrefixReq = False, Extension = 0, oDispSize = 0, oImmSize = 2\<rparr>,
    \<lparr>oLiteral = 0xC3, oMnemonic = ''retn'', Encoder = Enc_NP, ModrmReq = False, ExtensionReq = False,
     PrefixReq = False, Extension = 0, oDispSize = 0, oImmSize = 0\<rparr>,
    \<lparr>oLiteral = 0xC2, oMnemonic = ''retn'', Encoder = Enc_I, ModrmReq = False, ExtensionReq = False,
     PrefixReq = False, Extension = 0, oDispSize = 0, oImmSize = 2\<rparr>,
    \<lparr>oLiteral = 0xD1, oMnemonic = ''sal %s, 1'', Encoder = Enc_M, ModrmReq = True, ExtensionReq = True,
     PrefixReq = False, Extension = 4, oDispSize = 0, oImmSize = 0\<rparr>,
    \<lparr>oLiteral = 0xD1, oMnemonic = ''sar %s, 1'', Encoder = Enc_M, ModrmReq = True, ExtensionReq = True,
     PrefixReq = False, Extension = 7, oDispSize = 0, oImmSize = 0\<rparr>,
    \<lparr>oLiteral = 0xD1, oMnemonic = ''shr %s, 1'', Encoder = Enc_M, ModrmReq = True, ExtensionReq = True,
     PrefixReq = False, Extension = 5, oDispSize = 0, oImmSize = 0\<rparr>,
    \<lparr>oLiteral = 0x1D, oMnemonic = ''sbb eax,'', Encoder = Enc_I, ModrmReq = False, ExtensionReq = False,
     PrefixReq = False, Extension = 0, oDispSize = 0, oImmSize = 4\<rparr>,
    \<lparr>oLiteral = 0x81, oMnemonic = ''sbb'', Encoder = Enc_MI, ModrmReq = True, ExtensionReq = True,
     PrefixReq = False, Extension = 3, oDispSize = 0, oImmSize = 4\<rparr>,
    \<lparr>oLiteral = 0x19, oMnemonic = ''sbb'', Encoder = Enc_MR, ModrmReq = True, ExtensionReq = False,
     PrefixReq = False, Extension = 0, oDispSize = 0, oImmSize = 0\<rparr>,
    \<lparr>oLiteral = 0x1B, oMnemonic = ''sbb'', Encoder = Enc_RM, ModrmReq = True, ExtensionReq = False,
     PrefixReq = False, Extension = 0, oDispSize = 0, oImmSize = 0\<rparr>,
    \<lparr>oLiteral = 0x2D, oMnemonic = ''sub eax,'', Encoder = Enc_I, ModrmReq = False, ExtensionReq = False,
     PrefixReq = False, Extension = 0, oDispSize = 0, oImmSize = 4\<rparr>,
    \<lparr>oLiteral = 0x81, oMnemonic = ''sub'', Encoder = Enc_MI, ModrmReq = True, ExtensionReq = True,
     PrefixReq = False, Extension = 5, oDispSize = 0, oImmSize = 4\<rparr>,
    \<lparr>oLiteral = 0x29, oMnemonic = ''sub'', Encoder = Enc_MR, ModrmReq = True, ExtensionReq = False,
     PrefixReq = False, Extension = 0, oDispSize = 0, oImmSize = 0\<rparr>,
    \<lparr>oLiteral = 0x2B, oMnemonic = ''sub'', Encoder = Enc_RM, ModrmReq = True, ExtensionReq = False,
     PrefixReq = False, Extension = 0, oDispSize = 0, oImmSize = 0\<rparr>,
    \<lparr>oLiteral = 0xA9, oMnemonic = ''test eax,'', Encoder = Enc_I, ModrmReq = False, ExtensionReq = False,
     PrefixReq = False, Extension = 0, oDispSize = 0, oImmSize = 4\<rparr>,
    \<lparr>oLiteral = 0xF7, oMnemonic = ''test'', Encoder = Enc_MI, ModrmReq = True, ExtensionReq = True,
     PrefixReq = False, Extension = 0, oDispSize = 0, oImmSize = 4\<rparr>,
    \<lparr>oLiteral = 0x85, oMnemonic = ''test'', Encoder = Enc_MR, ModrmReq = True, ExtensionReq = False,
     PrefixReq = False, Extension = 0, oDispSize = 0, oImmSize = 0\<rparr>,
    \<lparr>oLiteral = 0x35, oMnemonic = ''xor eax,'', Encoder = Enc_I, ModrmReq = False, ExtensionReq = False,
     PrefixReq = False, Extension = 0, oDispSize = 0, oImmSize = 4\<rparr>,
    \<lparr>oLiteral = 0x81, oMnemonic = ''xor'', Encoder = Enc_MI, ModrmReq = True, ExtensionReq = True,
     PrefixReq = False, Extension = 6, oDispSize = 0, oImmSize = 4\<rparr>,
    \<lparr>oLiteral = 0x31, oMnemonic = ''xor'', Encoder = Enc_MR, ModrmReq = True, ExtensionReq = False,
     PrefixReq = False, Extension = 0, oDispSize = 0, oImmSize = 0\<rparr>,
    \<lparr>oLiteral = 0x33, oMnemonic = ''xor'', Encoder = Enc_RM, ModrmReq = True, ExtensionReq = False,
     PrefixReq = False, Extension = 0, oDispSize = 0, oImmSize = 0\<rparr>]"

text \<open>
  The three opcode maps that \<^verbatim>\<open>init\<close> fills. The inner maps of \<open>OpCodesExt\<close> exist
  for the seven extension-bearing opcodes only; assigning into the inner map of any
  other key would be an assignment to a nil map, a panic (\<open>None\<close>).
\<close>

record tables =
  tOpCodes :: "byte \<rightharpoonup> OpCode"
  tOpCodesExt :: "byte \<rightharpoonup> (int \<rightharpoonup> OpCode)"
  tOpCodesPrefixed :: "byte \<rightharpoonup> OpCode"

definition tables0 :: tables where
  "tables0 = \<lparr>tOpCodes = Map.empty,
     tOpCodesExt = [0x81 \<mapsto> Map.empty, 0xFF \<mapsto> Map.empty, 0xAE \<mapsto> Map.empty,
                    0xF7 \<mapsto> Map.empty, 0xC7 \<mapsto> Map.empty, 0x8F \<mapsto> Map.empty,
                    0xD1 \<mapsto> Map.empty],
     tOpCodesPrefixed = Map.empty\<rparr>"

text \<open>
  One turn of the loop that populates the maps. For the encodings \<^verbatim>\<open>O\<close> and \<^verbatim>\<open>OI\<close>
  the inner loop runs \<^verbatim>\<open>for i := int(op.Literal); i < int(op.Literal)+7; i++\<close>.
\<close>

definition install :: "OpCode \<Rightarrow> tables \<Rightarrow> tables option" where
  "install op t =
     (if ExtensionReq op then
        (case tOpCodesExt t (oLiteral op) of
           None \<Rightarrow> None
         | Some opcode_map \<Rightarrow>
             Some (t\<lparr>tOpCodesExt := (tOpCodesExt t)(oLiteral op \<mapsto> opcode_map(Extension op \<mapsto> op))\<rparr>))
      else if PrefixReq op then
        Some (t\<lparr>tOpCodesPrefixed := (tOpCodesPrefixed t)(oLiteral op \<mapsto> op)\<rparr>)
      else if Encoding (Encoder op) = ''O'' \<or> Encoding (Encoder op) = ''OI'' then
        Some (t\<lparr>tOpCodes :=
                fold (\<lambda>i m. m(of_nat i \<mapsto> op))
                     [unat (oLiteral op) ..< unat (oLiteral op) + 7] (tOpCodes t)\<rparr>)
      else
        Some (t\<lparr>tOpCodes := (tOpCodes t)(oLiteral op \<mapsto> op)\<rparr>))"

definition init_tables :: "tables option" where
  "init_tables = fold (\<lambda>op t. Option.bind t (install op)) allOps (Some tables0)"

definition OpCodes :: "byte \<rightharpoonup> OpCode" where
  "OpCodes = (case init_tables of Some t \<Rightarrow> tOpCodes t | None \<Rightarrow> Map.empty)"

definition OpCodesExt :: "byte \<rightharpoonup> (int \<rightharpoonup> OpCode)" where
  "OpCodesExt = (case init_tables of Some t \<Rightarrow> tOpCodesExt t | None \<Rightarrow> Map.empty)"

definition OpCodesPrefixed :: "byte \<rightharpoonup> OpCode" where
  "OpCodesPrefixed = (case init_tables of Some t \<Rightarrow> tOpCodesPrefixed t | None \<Rightarrow> Map.empty)"

subsection \<open>Package operations: dispatch\<close>

definition OpCode_Encode ::
  "OpCode \<Rightarrow> Buffer \<Rightarrow> Instruction \<Rightarrow> error option \<times> Instruction \<times> Buffer" where
  "OpCode_Encode o' data inst =
     (let inst1 = inst\<lparr>Mnemonic := oMnemonic o'\<rparr>;
          inst2 = inst1\<lparr>DispSize := oDispSize o'\<rparr>;
          inst3 = inst2\<lparr>ImmSize := oImmSize o'\<rparr>
      in Encoder_Encode (Encoder o') data inst3)"

definition db :: "byte \<Rightarrow> error" where
  "db b = Errorf (''db '' @ fmt_0x 2 (uint b))"

definition GetExtendedOpcode :: "byte \<Rightarrow> Buffer \<Rightarrow> (OpCode option \<times> error option) \<times> Buffer" where
  "GetExtendedOpcode opcode data =
     (case OpCodesExt opcode of
        Some opcode_map \<Rightarrow>
          (case ReadByte data of
             (Inl e, data1) \<Rightarrow> ((None, Some ErrUnexpectedEOF), data1)
           | (Inr modrm_byte, data1) \<Rightarrow>
               (let modrm = ParseModRM modrm_byte
                in case opcode_map (Reg modrm) of
                     Some code \<Rightarrow> ((Some code, None), UnreadByte data1)
                   | None \<Rightarrow> ((None, Some (db opcode)), UnreadByte data1)))
      | None \<Rightarrow> ((None, Some ONF), data))"

text \<open>
  \<^verbatim>\<open>GetNext\<close> returns the opcode record, the prefix, the opcode byte and the error.
  The \<^verbatim>\<open>switch prefix\<close> compares pointers; \<open>Vex\<close> and \<open>Repne\<close> are the only two
  prefixes and differ as values, so the comparison is on values here.
\<close>

definition GetNext ::
  "Buffer \<Rightarrow> (OpCode option \<times> Prefix option \<times> byte \<times> error option) \<times> Buffer" where
  "GetNext data =
     (case ReadByte data of
        (Inl e, data1) \<Rightarrow> ((None, None, 0x00, Some EOF), data1)
      | (Inr next, data1) \<Rightarrow>
          (case Prefixes next of
             Some prefix \<Rightarrow>
               (case ReadByte data1 of
                  (Inl e, data2) \<Rightarrow> ((None, Some prefix, 0x00, Some ErrUnexpectedEOF), data2)
                | (Inr code, data2) \<Rightarrow>
                    if prefix = Vex then
                      (case OpCodesPrefixed code of
                         Some opcode \<Rightarrow> ((Some opcode, Some prefix, code, None), data2)
                       | None \<Rightarrow>
                           if code = 0xAE then
                             (let ((op, err), data3) = GetExtendedOpcode code data2
                              in ((op, Some prefix, code, err), data3))
                           else
                             ((None, Some prefix, 0x00, Some (db (pLiteral prefix))),
                              UnreadByte data2))
                    else if prefix = Repne then
                      (case OpCodes code of
                         Some opcode \<Rightarrow> ((Some opcode, Some prefix, code, None), data2)
                       | None \<Rightarrow> ((None, Some prefix, code, Some (db code)), data2))
                    else
                      ((None, Some prefix, 0x00, Some (db (pLiteral prefix))), UnreadByte data2))
           | None \<Rightarrow>
               (let ((opcode, err), data2) = GetExtendedOpcode next data1
                in if err \<noteq> Some ONF then ((opcode, None, next, err), data2)
                   else
                     (case OpCodes next of
                        Some opcode \<Rightarrow> ((Some opcode, None, next, None), data2)
                      | None \<Rightarrow> ((None, None, next, Some (db next)), data2)))))"

subsection \<open>The linear sweep\<close>

text \<open>
  The state of \<^verbatim>\<open>Parse_Instructions\<close>: the buffer, the current offset, the global map
  \<open>Instructions\<close> from offsets to instruction pointers, the heap the pointers point
  into (an address is an index of the list, allocation appends), and what was printed.
\<close>

record state =
  data :: Buffer
  offset :: int
  Instructions :: "int \<rightharpoonup> nat"
  heap :: "Instruction list"
  stdout :: "string list"

datatype 'a outcome = Continue 'a | Break 'a | Panic

definition alloc :: "Instruction \<Rightarrow> Instruction list \<Rightarrow> nat \<times> Instruction list" where
  "alloc i h = (length h, h @ [i])"

text \<open>
  The head of the loop body: \<^verbatim>\<open>instruction\<close> is the entry of the map at the current
  offset when there is one, and a fresh object otherwise.
\<close>

definition fetch :: "state \<Rightarrow> nat \<times> Instruction list" where
  "fetch st =
     (case Instructions st (offset st) of
        Some inst \<Rightarrow> (inst, heap st)
      | None \<Rightarrow> alloc new_Instruction (heap st))"

text \<open>
  Attaching a label: \<^verbatim>\<open>other_instruction\<close> (\<open>q\<close>) is the entry of the map at the
  target when there is one, and a fresh object with that offset otherwise; its label is
  assigned and it is stored under the target.
\<close>

definition attach_label ::
  "string \<Rightarrow> int \<Rightarrow> (int \<rightharpoonup> nat) \<times> Instruction list \<Rightarrow> (int \<rightharpoonup> nat) \<times> Instruction list" where
  "attach_label operands other_offset mh =
     (let (m, h) = mh;
          (q, h1) = (case m other_offset of
                       Some other_inst \<Rightarrow> (other_inst, h)
                     | None \<Rightarrow> alloc (new_Instruction\<lparr>Offset := other_offset\<rparr>) h);
          h2 = h1[q := (h1 ! q)\<lparr>Label := operands\<rparr>]
      in (m(other_offset \<mapsto> q), h2))"

text \<open>
  One turn of the \<^verbatim>\<open>for\<close> loop. \<open>p\<close> is the pointer \<^verbatim>\<open>instruction\<close>; the fields
  the turn assigns through it are collected in \<open>i1\<close>, \<open>i2\<close>, ... and written to the
  heap before the label is attached, since \<^verbatim>\<open>other_instruction\<close> may be the same
  object. What \<^verbatim>\<open>fmt.Printf\<close> prints is recorded line by line.
\<close>

definition step :: "state \<Rightarrow> state outcome" where
  "step st =
     (let (p, h0) = fetch st;
          ((opcode, prefix, opcode_literal, err), data1) = GetNext (data st)
      in case err of
           Some e \<Rightarrow>
             if e = EOF \<or> e = ErrUnexpectedEOF then Break (st\<lparr>data := data1, heap := h0\<rparr>)
             else
               (let i = h0 ! p;
                    i1 = i\<lparr>Offset := offset st\<rparr>;
                    i2 = i1\<lparr>Mnemonic := Error e\<rparr>;
                    i3 = i2\<lparr>Literal := Literal i2 @ [opcode_literal]\<rparr>
                in Continue (st\<lparr>data := data1, offset := offset st + 1,
                                 Instructions := (Instructions st)(offset st \<mapsto> p),
                                 heap := h0[p := i3]\<rparr>))
         | None \<Rightarrow>
             (case opcode of
                None \<Rightarrow> Panic
              | Some oc \<Rightarrow>
                  (let i = h0 ! p;
                       i1 = i\<lparr>Offset := offset st\<rparr>;
                       i2 = i1\<lparr>Pre := prefix\<rparr>;
                       i3 = i2\<lparr>Op := opcode_literal\<rparr>;
                       i4 = (case prefix of
                               Some pre \<Rightarrow> i3\<lparr>Literal := Literal i3 @ [pLiteral pre]\<rparr>
                             | None \<Rightarrow> i3);
                       i5 = i4\<lparr>Literal := Literal i4 @ [opcode_literal]\<rparr>;
                       (err1, i6, data2) = OpCode_Encode oc data1 i5;
                       out1 = (case err1 of
                                 Some e1 \<Rightarrow> stdout st @ [''Error encoding: '' @ Error e1]
                               | None \<Rightarrow> stdout st)
                   in case StringifyOperands (Encoder oc) i6 of
                        None \<Rightarrow> Panic
                      | Some (operands, other_offset, is_offset, err2) \<Rightarrow>
                          (let i7 = i6\<lparr>Operands := operands\<rparr>;
                               out2 = (case err2 of
                                         Some e2 \<Rightarrow> out1 @ [''Error stringifying: '' @ Error e2]
                                       | None \<Rightarrow> out1);
                               h1 = h0[p := i7];
                               (m2, h2) = (if is_offset
                                           then attach_label operands other_offset (Instructions st, h1)
                                           else (Instructions st, h1))
                           in Continue (st\<lparr>data := data2,
                                            offset := offset st + int (length (Literal (h2 ! p))),
                                            Instructions := m2(offset st \<mapsto> p),
                                            heap := h2,
                                            stdout := out2\<rparr>)))))"

text \<open>
  \<^verbatim>\<open>Parse_Instructions\<close>: the loop runs until dispatch reports \<^verbatim>\<open>io.EOF\<close> or
  \<^verbatim>\<open>io.ErrUnexpectedEOF\<close>. \<open>None\<close> is a run that ends in a panic.
\<close>

function Parse_Instructions :: "state \<Rightarrow> state option" where
  "Parse_Instructions st =
     (case step st of
        Continue st' \<Rightarrow> Parse_Instructions st'
      | Break st' \<Rightarrow> Some st'
      | Panic \<Rightarrow> None)"
  by pat_completeness auto

text \<open>The state \<^verbatim>\<open>main\<close> starts the sweep in, and the whole sweep of a file.\<close>

definition init_state :: "byte list \<Rightarrow> state" where
  "init_state bs = \<lparr>data = NewBuffer bs, offset = 0, Instructions = Map.empty, heap = [],
     stdout = []\<rparr>"

definition sweep :: "byte list \<Rightarrow> state option" where
  "sweep bs = Parse_Instructions (init_state bs)"

text \<open>The state after \<open>n\<close> full turns of the loop, when the sweep gets that far.\<close>

fun steps :: "nat \<Rightarrow> state \<Rightarrow> state option" where
  "steps 0 st = Some st"
| "steps (Suc n) st = (case step st of Continue st' \<Rightarrow> steps n st' | Break st' \<Rightarrow> None | Panic \<Rightarrow> None)"

text \<open>The instruction the map holds at an offset.\<close>

definition instruction_at :: "state \<Rightarrow> int \<Rightarrow> Instruction option" where
  "instruction_at st k = map_option (\<lambda>a. heap st ! a) (Instructions st k)"

subsection \<open>Observations on a finished sweep\<close>

definition swept_instruction :: "byte list \<Rightarrow> int \<Rightarrow> Instruction option" where
  "swept_instruction bs k = Option.bind (sweep bs) (\<lambda>st. instruction_at st k)"

definition stored_offsets :: "state \<Rightarrow> int set" where
  "stored_offsets st = dom (Instructions st)"

text \<open>
  The fields the loop body assigns before it calls the encoder: offset, prefix, opcode
  byte, and the prefix byte (if any) and the opcode byte appended to the literal.
\<close>

definition header :: "state \<Rightarrow> Prefix option \<Rightarrow> byte \<Rightarrow> Instruction \<Rightarrow> Instruction" where
  "header st pre lit i =
     (case pre of
        Some pr \<Rightarrow> i\<lparr>Offset := offset st, Pre := pre, Op := lit, Literal := Literal i @ [pLiteral pr, lit]\<rparr>
      | None \<Rightarrow> i\<lparr>Offset := offset st, Pre := pre, Op := lit, Literal := Literal i @ [lit]\<rparr>)"

text \<open>
  What an encoder may do: append the bytes it consumed to the literal, and leave the
  offset and the label alone.
\<close>

definition extends :: "Buffer \<Rightarrow> Instruction \<Rightarrow> Buffer \<Rightarrow> Instruction \<Rightarrow> bool" where
  "extends d i d' i' \<longleftrightarrow>
     (\<exists>c. Literal i' = Literal i @ c \<and> rest d = c @ rest d') \<and>
     Offset i' = Offset i \<and> Label i' = Label i"

text \<open>
  The invariant of the sweep, on the current offset, the map and the heap: every pointer
  in the map is allocated, an instruction at or ahead of the current offset is a
  label-only placeholder (its literal is empty), and no two offsets share an object.
\<close>

definition ok :: "int \<Rightarrow> (int \<rightharpoonup> nat) \<Rightarrow> Instruction list \<Rightarrow> bool" where
  "ok n m h \<longleftrightarrow>
     (\<forall>k a. m k = Some a \<longrightarrow> a < length h \<and> (n \<le> k \<longrightarrow> Literal (h ! a) = [])) \<and>
     (\<forall>k1 k2 a. m k1 = Some a \<longrightarrow> m k2 = Some a \<longrightarrow> k1 = k2)"

definition wf_state :: "state \<Rightarrow> bool" where
  "wf_state st \<longleftrightarrow> ok (offset st) (Instructions st) (heap st)"

subsection \<open>The listing: the legality comment\<close>

text \<open>
  The comment column \<^verbatim>\<open>Print_Instructions\<close> computes for an instruction. The two
  mnemonics are read from the tables; a missing table entry would be a nil dereference
  (\<open>None\<close>). Go's \<^verbatim>\<open>&&\<close> and \<^verbatim>\<open>||\<close> evaluate left to right and stop early.
\<close>

definition illegal_mode :: "Instruction \<Rightarrow> string" where
  "illegal_mode instruction =
     (if (case Modrm instruction of None \<Rightarrow> False | Some m \<Rightarrow> Mod m = AM_DIRECT)
      then ''; Illegal addressing mode.'' else '''')"

definition legality_comment :: "Instruction \<Rightarrow> string option" where
  "legality_comment instruction =
     (if Mnemonic instruction \<noteq> '''' then
        (case Option.bind (OpCodesExt 0xAE) (\<lambda>opcode_map. opcode_map 7) of
           None \<Rightarrow> None
         | Some clflush \<Rightarrow>
             if Mnemonic instruction = oMnemonic clflush then Some (illegal_mode instruction)
             else
               (case OpCodes 0x8D of
                  None \<Rightarrow> None
                | Some lea \<Rightarrow>
                    if Mnemonic instruction = oMnemonic lea then Some (illegal_mode instruction)
                    else Some ''''))
      else Some '''')"

text \<open>The branch target, the \<^verbatim>\<open>end\<close> that \<^verbatim>\<open>D.StringifyOperands\<close> computes.\<close>

definition branch_target :: "Instruction \<Rightarrow> int" where
  "branch_target inst =
     Offset inst + int (length (Literal inst)) + fst (BytesToIntSigned (Displacement inst))"

section \<open>Properties of the buffer and of the encoders\<close>

lemma ReadByte_Inr:
  assumes "ReadByte b = (Inr x, b')"
  shows "rest b = x # rest b'" and "lastRead b' = opRead" and "off b' = off b + 1"
    and "buf b' = buf b"
  using assms
  by (auto simp: ReadByte_def rest_def Cons_nth_drop_Suc split: if_splits)

lemma ReadByte_Inl:
  assumes "ReadByte b = (Inl e, b')"
  shows "rest b = []" and "rest b' = []" and "e = EOF"
  using assms by (auto simp: ReadByte_def rest_def Reset_def split: if_splits)

lemma ReadByte_Cons:
  assumes "rest b = x # xs"
  shows "\<exists>b'. ReadByte b = (Inr x, b') \<and> rest b' = xs \<and> lastRead b' = opRead
              \<and> off b' = off b + 1 \<and> buf b' = buf b"
proof -
  from assms have lt: "off b < length (buf b)"
    by (cases "off b < length (buf b)") (simp_all add: rest_def)
  then have "drop (off b) (buf b) = buf b ! off b # drop (Suc (off b)) (buf b)"
    by (simp add: Cons_nth_drop_Suc)
  with assms have "x = buf b ! off b" "xs = drop (Suc (off b)) (buf b)"
    by (simp_all add: rest_def)
  with lt show ?thesis
    by (simp add: ReadByte_def rest_def)
qed

lemma ReadByte_Nil:
  assumes "rest b = []"
  shows "\<exists>b'. ReadByte b = (Inl EOF, b') \<and> rest b' = []"
  using assms by (simp add: ReadByte_def rest_def Reset_def)

lemma UnreadByte_after_ReadByte:
  assumes "ReadByte b = (Inr x, b')"
  shows "rest (UnreadByte b') = rest b"
  using assms by (auto simp: ReadByte_def UnreadByte_def rest_def split: if_splits)

lemma Next_rest:
  assumes "Next b n = (bs, b')"
  shows "bs = take n (rest b)" and "rest b' = drop n (rest b)"
  using assms by (auto simp: Next_def Let_def rest_def Len_def add.commute split: if_splits)

lemma GetExtendedOpcode_rest:
  assumes "GetExtendedOpcode opc d = ((oc, err), d')"
  shows "err \<noteq> Some ErrUnexpectedEOF \<longrightarrow> rest d' = rest d"
    and "length (rest d') \<le> length (rest d)"
  using assms
  by (auto simp: GetExtendedOpcode_def Let_def UnreadByte_after_ReadByte ReadByte_Inl
           split: option.splits prod.splits sum.splits)

lemma GetNext_progress:
  assumes "GetNext d = ((oc, pre, lit, err), d')"
    and "err \<noteq> Some EOF" and "err \<noteq> Some ErrUnexpectedEOF"
  shows "length (rest d') < length (rest d)"
proof (cases "ReadByte d")
  case (Pair r d1)
  show ?thesis
  proof (cases r)
    case (Inl e)
    with Pair assms show ?thesis by (simp add: GetNext_def)
  next
    case (Inr nxt)
    with Pair have r1: "rest d = nxt # rest d1" by (simp add: ReadByte_Inr)
    show ?thesis
    proof (cases "Prefixes nxt")
      case None
      obtain oc2 err2 d2 where ge: "GetExtendedOpcode nxt d1 = ((oc2, err2), d2)"
        by (metis prod.exhaust)
      then have "length (rest d2) \<le> length (rest d1)"
        by (rule GetExtendedOpcode_rest)
      moreover have "d' = d2"
        using assms(1) Pair Inr None ge
        by (auto simp: GetNext_def split: option.splits if_splits)
      ultimately show ?thesis using r1 by simp
    next
      case (Some prefix)
      show ?thesis
      proof (cases "ReadByte d1")
        case P2: (Pair r2 d2)
        show ?thesis
        proof (cases r2)
          case (Inl e)
          with P2 Pair Inr Some assms show ?thesis by (simp add: GetNext_def)
        next
          case I2: (Inr code)
          with P2 have r2': "rest d1 = code # rest d2" by (simp add: ReadByte_Inr)
          have u: "rest (UnreadByte d2) = rest d1"
            using P2 I2 by (simp add: UnreadByte_after_ReadByte)
          obtain oc3 err3 d3 where ge: "GetExtendedOpcode code d2 = ((oc3, err3), d3)"
            by (metis prod.exhaust)
          then have le3: "length (rest d3) \<le> length (rest d2)"
            by (rule GetExtendedOpcode_rest)
          have "d' = d2 \<or> d' = d3 \<or> d' = UnreadByte d2"
            using assms(1) Pair Inr Some P2 I2 ge
            by (auto simp: GetNext_def split: option.splits if_splits)
          then show ?thesis using r1 r2' u le3 by auto
        qed
      qed
    qed
  qed
qed

lemma Next_consumes: "Next d n = (bs, d') \<Longrightarrow> rest d = bs @ rest d'"
  using Next_rest [of d n bs d'] by simp

lemma ReadByte_Inr_rest: "ReadByte b = (Inr x, b') \<Longrightarrow> rest b = x # rest b'"
  by (rule ReadByte_Inr)

lemma ReadByte_Inl_rest: "ReadByte b = (Inl e, b') \<Longrightarrow> rest b = [] \<and> rest b' = []"
  by (simp add: ReadByte_Inl)

lemma ParseDisplacement_consumes:
  assumes "ParseDisplacement m d n = ((disp, err), d')"
  shows "rest d = disp @ rest d'"
proof (cases m)
  case None
  with assms show ?thesis
    by (auto simp: ParseDisplacement_def Let_def split: prod.splits if_splits
             dest!: Next_consumes)
next
  case (Some x)
  with assms show ?thesis
    by (auto simp: ParseDisplacement_def Let_def split: prod.splits if_splits sum.splits
             dest!: Next_consumes ReadByte_Inr_rest ReadByte_Inl_rest)
qed

lemma ParseImmediate_consumes:
  assumes "ParseImmediate d n = ((imm, err), d')"
  shows "rest d = imm @ rest d'"
  using assms
  by (auto simp: ParseImmediate_def Let_def split: prod.splits dest!: Next_consumes)

lemma extends_refl: "extends d i d i"
  by (simp add: extends_def)

lemma extends_trans: "extends d i d1 i1 \<Longrightarrow> extends d1 i1 d2 i2 \<Longrightarrow> extends d i d2 i2"
  by (auto simp: extends_def)

lemma M_Encode_extends:
  assumes "M_Encode d i = (err, i', d')"
  shows "extends d i d' i'"
proof (cases "ReadByte d")
  case (Pair r d1)
  show ?thesis
  proof (cases r)
    case (Inl e)
    with Pair assms have "i' = i" "d' = d1" by (simp_all add: M_Encode_def)
    moreover from Pair Inl have "rest d = [] \<and> rest d1 = []" by (simp add: ReadByte_Inl)
    ultimately show ?thesis by (simp add: extends_def)
  next
    case (Inr nxt)
    with Pair have r: "rest d = nxt # rest d1" by (simp add: ReadByte_Inr)
    obtain disp e2 d2 where pd: "ParseDisplacement (Some (ParseModRM nxt)) d1 0 = ((disp, e2), d2)"
      by (metis prod.exhaust)
    then have r2: "rest d1 = disp @ rest d2" by (rule ParseDisplacement_consumes)
    from assms Pair Inr pd
    have "i' = i\<lparr>Modrm := Some (ParseModRM nxt), Displacement := disp,
                   Literal := Literal i @ nxt # disp\<rparr>" and "d' = d2"
      by (simp_all add: M_Encode_def Let_def ParseModRM_def)
    with r r2 show ?thesis by (simp add: extends_def)
  qed
qed

lemma MI_Encode_extends:
  assumes "MI_Encode d i = (err, i', d')"
  shows "extends d i d' i'"
proof -
  obtain e1 i1 d1 where m: "M_Encode d i = (e1, i1, d1)"
    by (metis prod.exhaust)
  then have x1: "extends d i d1 i1" by (rule M_Encode_extends)
  show ?thesis
  proof (cases e1)
    case (Some e)
    with assms m have "i' = i1" "d' = d1" by (simp_all add: MI_Encode_def)
    with x1 show ?thesis by simp
  next
    case None
    obtain imm e2 d2 where pi: "ParseImmediate d1 4 = ((imm, e2), d2)"
      by (metis prod.exhaust)
    then have "rest d1 = imm @ rest d2" by (rule ParseImmediate_consumes)
    moreover from assms m None pi
    have "i' = i1\<lparr>Immediate := imm, Literal := Literal i1 @ imm\<rparr>" "d' = d2"
      by (simp_all add: MI_Encode_def Let_def)
    ultimately have "extends d1 i1 d' i'" by (simp add: extends_def)
    with x1 show ?thesis by (rule extends_trans)
  qed
qed

lemma I_Encode_extends:
  assumes "I_Encode d i = (err, i', d')"
  shows "extends d i d' i'"
proof -
  obtain imm e2 d2 where pi: "ParseImmediate d (ImmSize i) = ((imm, e2), d2)"
    by (metis prod.exhaust)
  then have "rest d = imm @ rest d2" by (rule ParseImmediate_consumes)
  moreover from assms pi
  have "i' = i\<lparr>Immediate := imm, Literal := Literal i @ imm\<rparr>" "d' = d2"
    by (simp_all add: I_Encode_def Let_def)
  ultimately show ?thesis by (simp add: extends_def)
qed

lemma OI_Encode_extends:
  assumes "OI_Encode d i = (err, i', d')"
  shows "extends d i d' i'"
proof -
  obtain imm e2 d2 where pi: "ParseImmediate d 4 = ((imm, e2), d2)"
    by (metis prod.exhaust)
  then have "rest d = imm @ rest d2" by (rule ParseImmediate_consumes)
  moreover from assms pi
  have "i' = i\<lparr>Immediate := imm, Literal := Literal i @ imm\<rparr>" "d' = d2"
    by (simp_all add: OI_Encode_def Let_def)
  ultimately show ?thesis by (simp add: extends_def)
qed

lemma D_Encode_extends:
  assumes "D_Encode d i = (err, i', d')"
  shows "extends d i d' i'"
proof -
  obtain disp e2 d2 where pd: "ParseDisplacement (Modrm i) d (DispSize i) = ((disp, e2), d2)"
    by (metis prod.exhaust)
  then have "rest d = disp @ rest d2" by (rule ParseDisplacement_consumes)
  moreover from assms pd
  have "i' = i\<lparr>Displacement := disp, Literal := Literal i @ disp\<rparr>" "d' = d2"
    by (simp_all add: D_Encode_def Let_def)
  ultimately show ?thesis by (simp add: extends_def)
qed

lemma Encoder_Encode_extends:
  assumes "Encoder_Encode e d i = (err, i', d')"
  shows "extends d i d' i'"
  using assms
  by (cases e)
     (simp_all add: M_Encode_extends MI_Encode_extends I_Encode_extends OI_Encode_extends
        D_Encode_extends extends_refl)

lemma OpCode_Encode_extends:
  assumes "OpCode_Encode oc d i = (err, i', d')"
  shows "extends d i d' i'"
proof -
  let ?i3 = "i\<lparr>Mnemonic := oMnemonic oc, DispSize := oDispSize oc, ImmSize := oImmSize oc\<rparr>"
  from assms have "Encoder_Encode (Encoder oc) d ?i3 = (err, i', d')"
    by (simp add: OpCode_Encode_def Let_def)
  then have "extends d ?i3 d' i'" by (rule Encoder_Encode_extends)
  then show ?thesis by (simp add: extends_def)
qed

lemma step_progress:
  assumes "step st = Continue st'"
  shows "length (rest (data st')) < length (rest (data st))"
proof -
  obtain oc pre lit err d1 where gn: "GetNext (data st) = ((oc, pre, lit, err), d1)"
    by (metis prod.exhaust)
  show ?thesis
  proof (cases err)
    case (Some e)
    with assms gn have ne: "e \<noteq> EOF" "e \<noteq> ErrUnexpectedEOF" and d: "data st' = d1"
      by (auto simp: step_def Let_def split: prod.splits if_splits)
    from gn Some ne have "length (rest d1) < length (rest (data st))"
      by (intro GetNext_progress [OF gn]) simp_all
    with d show ?thesis by simp
  next
    case None
    with gn have lt: "length (rest d1) < length (rest (data st))"
      by (intro GetNext_progress [OF gn]) simp_all
    from assms gn None obtain o' where oc: "oc = Some o'"
      by (cases oc) (auto simp: step_def Let_def split: prod.splits)
    from assms gn None oc obtain i5 e1 i6 where "OpCode_Encode o' d1 i5 = (e1, i6, data st')"
      by (auto simp: step_def Let_def split: prod.splits option.splits)
    then have "extends d1 i5 (data st') i6" by (rule OpCode_Encode_extends)
    then have "length (rest (data st')) \<le> length (rest d1)"
      by (auto simp: extends_def)
    with lt show ?thesis by simp
  qed
qed

text \<open>The sweep terminates: every turn that continues has consumed a byte.\<close>

termination Parse_Instructions
  by (relation "measure (\<lambda>st. length (rest (data st)))") (auto dest: step_progress)

declare Parse_Instructions.simps [simp del]

subsection \<open>The shape of one turn of the loop\<close>


lemma step_db:
  assumes "GetNext (data st) = ((oc, pre, lit, Some e), d1)" and "e \<noteq> EOF" and "e \<noteq> ErrUnexpectedEOF"
    and "fetch st = (p, h0)"
  shows "step st = Continue (st\<lparr>data := d1, offset := offset st + 1,
            Instructions := (Instructions st)(offset st \<mapsto> p),
            heap := h0[p := (h0 ! p)\<lparr>Offset := offset st, Mnemonic := Error e,
                                     Literal := Literal (h0 ! p) @ [lit]\<rparr>]\<rparr>)"
  using assms by (simp add: step_def Let_def)

lemma step_break:
  assumes "GetNext (data st) = ((oc, pre, lit, Some e), d1)" and "e = EOF \<or> e = ErrUnexpectedEOF"
    and "fetch st = (p, h0)"
  shows "step st = Break (st\<lparr>data := d1, heap := h0\<rparr>)"
  using assms by (auto simp add: step_def Let_def)

lemma step_ok:
  assumes "GetNext (data st) = ((Some o', pre, lit, None), d1)"
    and "fetch st = (p, h0)"
    and "OpCode_Encode o' d1 (header st pre lit (h0 ! p)) = (e1, i6, d2)"
    and "StringifyOperands (Encoder o') i6 = Some (ops, T, is_off, e2)"
    and "(if is_off then attach_label ops T (Instructions st, h0[p := i6\<lparr>Operands := ops\<rparr>])
          else (Instructions st, h0[p := i6\<lparr>Operands := ops\<rparr>])) = (m2, h2)"
  shows "\<exists>out. step st = Continue (st\<lparr>data := d2,
            offset := offset st + int (length (Literal (h2 ! p))),
            Instructions := m2(offset st \<mapsto> p), heap := h2, stdout := out\<rparr>)"
  using assms by (cases pre) (auto simp add: step_def Let_def header_def split: prod.splits)


subsection \<open>The invariant of the sweep\<close>

lemma okI:
  assumes "\<And>k a. m k = Some a \<Longrightarrow> a < length h"
    and "\<And>k a. m k = Some a \<Longrightarrow> n \<le> k \<Longrightarrow> Literal (h ! a) = []"
    and "\<And>k1 k2 a. m k1 = Some a \<Longrightarrow> m k2 = Some a \<Longrightarrow> k1 = k2"
  shows "ok n m h"
  using assms unfolding ok_def by blast

lemma okD1: "ok n m h \<Longrightarrow> m k = Some a \<Longrightarrow> a < length h"
  unfolding ok_def by blast

lemma okD2: "ok n m h \<Longrightarrow> m k = Some a \<Longrightarrow> n \<le> k \<Longrightarrow> Literal (h ! a) = []"
  unfolding ok_def by blast

lemma okD3: "ok n m h \<Longrightarrow> m k1 = Some a \<Longrightarrow> m k2 = Some a \<Longrightarrow> k1 = k2"
  unfolding ok_def by blast

lemma ok_mono: "ok n m h \<Longrightarrow> n \<le> n' \<Longrightarrow> ok n' m h"
  unfolding ok_def by (meson order_trans)

lemma ok_append:
  assumes "ok n m h"
  shows "ok n m (h @ xs)"
proof (rule okI)
  fix k a assume "m k = Some a"
  then have "a < length h" using assms by (rule okD1 [rotated])
  then show "a < length (h @ xs)" by simp
next
  fix k a assume ka: "m k = Some a" and nk: "n \<le> k"
  from assms ka have "a < length h" by (rule okD1)
  moreover from assms ka nk have "Literal (h ! a) = []" by (rule okD2)
  ultimately show "Literal ((h @ xs) ! a) = []" by (simp add: nth_append)
next
  fix k1 k2 a assume "m k1 = Some a" "m k2 = Some a"
  with assms show "k1 = k2" by (rule okD3)
qed

lemma ok_label:
  assumes "ok n m h"
  shows "ok n m (h[q := (h ! q)\<lparr>Label := s\<rparr>])"
proof (rule okI)
  fix k a assume "m k = Some a"
  with assms have "a < length h" by (rule okD1)
  then show "a < length (h[q := (h ! q)\<lparr>Label := s\<rparr>])" by simp
next
  fix k a assume ka: "m k = Some a" and nk: "n \<le> k"
  from assms ka have "a < length h" by (rule okD1)
  moreover from assms ka nk have "Literal (h ! a) = []" by (rule okD2)
  ultimately show "Literal (h[q := (h ! q)\<lparr>Label := s\<rparr>] ! a) = []"
    by (cases "a = q") simp_all
next
  fix k1 k2 a assume "m k1 = Some a" "m k2 = Some a"
  with assms show "k1 = k2" by (rule okD3)
qed

lemma ok_fetch:
  assumes "ok n m h"
    and "(case m n of Some inst \<Rightarrow> (inst, h) | None \<Rightarrow> alloc new_Instruction h) = (p, h0)"
  shows "ok n m h0 \<and> p < length h0 \<and> Literal (h0 ! p) = [] \<and>
         (\<forall>k a. m k = Some a \<longrightarrow> k \<noteq> n \<longrightarrow> a \<noteq> p)"
proof (cases "m n")
  case None
  with assms(2) have p: "p = length h" and h0: "h0 = h @ [new_Instruction]"
    by (simp_all add: alloc_def)
  have "a \<noteq> p" if "m k = Some a" for k a
    using okD1 [OF assms(1) that] p by simp
  with p h0 ok_append [OF assms(1)] show ?thesis
    by (simp add: new_Instruction_def)
next
  case (Some a0)
  with assms(2) have p: "p = a0" and h0: "h0 = h" by simp_all
  have "a \<noteq> p" if "m k = Some a" "k \<noteq> n" for k a
    using okD3 [OF assms(1) that(1), of n] Some p that(2) by auto
  with p h0 assms(1) Some okD1 [OF assms(1) Some] okD2 [OF assms(1) Some] show ?thesis
    by simp
qed

lemma ok_store:
  assumes "ok n m h0" and "p < length h0"
    and "\<forall>k a. m k = Some a \<longrightarrow> k \<noteq> n \<longrightarrow> a \<noteq> p"
  shows "ok (n + 1) (m(n \<mapsto> p)) (h0[p := i])"
proof (rule okI)
  fix k a assume "(m(n \<mapsto> p)) k = Some a"
  then show "a < length (h0[p := i])"
    using assms(2) okD1 [OF assms(1)] by (auto split: if_splits)
next
  fix k a assume ka: "(m(n \<mapsto> p)) k = Some a" and nk: "n + 1 \<le> k"
  then have mk: "m k = Some a" and "k \<noteq> n" by (auto split: if_splits)
  with assms(3) have "a \<noteq> p" by blast
  moreover have "Literal (h0 ! a) = []" using okD2 [OF assms(1) mk] nk by simp
  ultimately show "Literal (h0[p := i] ! a) = []" by simp
next
  fix k1 k2 a assume "(m(n \<mapsto> p)) k1 = Some a" "(m(n \<mapsto> p)) k2 = Some a"
  then show "k1 = k2"
    using assms(3) okD3 [OF assms(1)] by (auto split: if_splits)
qed

lemma ok_new_target:
  assumes "ok n m h" and "m T = None" and "Literal x = []"
  shows "ok n (m(T \<mapsto> length h)) (h @ [x])"
proof (rule okI)
  fix k a assume "(m(T \<mapsto> length h)) k = Some a"
  then show "a < length (h @ [x])"
    using okD1 [OF assms(1)] by (auto split: if_splits intro: less_SucI)
next
  fix k a assume ka: "(m(T \<mapsto> length h)) k = Some a" and nk: "n \<le> k"
  show "Literal ((h @ [x]) ! a) = []"
  proof (cases "k = T")
    case True
    with ka have "a = length h" by simp
    with assms(3) show ?thesis by simp
  next
    case False
    with ka have mk: "m k = Some a" by simp
    from okD1 [OF assms(1) mk] okD2 [OF assms(1) mk nk] show ?thesis
      by (simp add: nth_append)
  qed
next
  fix k1 k2 a
  assume "(m(T \<mapsto> length h)) k1 = Some a" "(m(T \<mapsto> length h)) k2 = Some a"
  then show "k1 = k2"
    using okD1 [OF assms(1)] okD3 [OF assms(1)] by (fastforce split: if_splits)
qed


lemma commit_ok:
  assumes ok0: "ok n m h0" and p: "p < length h0"
    and fresh: "\<forall>k a. m k = Some a \<longrightarrow> k \<noteq> n \<longrightarrow> a \<noteq> p"
    and att: "(if is_off then attach_label ops T (m, h0[p := i]) else (m, h0[p := i])) = (m2, h2)"
  shows "ok (n + 1) (m2(n \<mapsto> p)) h2 \<and> Literal (h2 ! p) = Literal i"
proof -
  let ?h1 = "h0[p := i]"
  have ok1: "ok (n + 1) (m(n \<mapsto> p)) ?h1"
    using ok0 p fresh by (rule ok_store)
  have p1: "p < length ?h1" and hp: "?h1 ! p = i" using p by simp_all
  show ?thesis
  proof (cases is_off)
    case False
    with att have "m2 = m" "h2 = ?h1" by simp_all
    with ok1 hp show ?thesis by simp
  next
    case True
    show ?thesis
    proof (cases "m T")
      case (Some q)
      with att True have m2: "m2 = m(T \<mapsto> q)" and h2: "h2 = ?h1[q := (?h1 ! q)\<lparr>Label := ops\<rparr>]"
        by (simp_all add: attach_label_def)
      from Some have "m(T \<mapsto> q) = m" by (rule map_upd_triv)
      with m2 have "m2 = m" by simp
      moreover have "ok (n + 1) (m(n \<mapsto> p)) (?h1[q := (?h1 ! q)\<lparr>Label := ops\<rparr>])"
        using ok1 by (rule ok_label)
      moreover have "Literal (?h1[q := (?h1 ! q)\<lparr>Label := ops\<rparr>] ! p) = Literal i"
        using p by (cases "q = p") simp_all
      ultimately show ?thesis using h2 by simp
    next
      case None
      let ?x = "new_Instruction\<lparr>Offset := T, Label := ops\<rparr>"
      let ?q = "length ?h1"
      let ?h = "?h1 @ [?x]"
      from att True None have m2: "m2 = m(T \<mapsto> ?q)" and h2: "h2 = ?h"
        by (auto simp: attach_label_def alloc_def)
      have lit: "Literal (h2 ! p) = Literal i"
        using p h2 by (simp add: nth_append)
      have "ok (n + 1) (m2(n \<mapsto> p)) ?h"
      proof (cases "T = n")
        case True
        with m2 have "m2(n \<mapsto> p) = m(n \<mapsto> p)" by simp
        with ok_append [OF ok1] show ?thesis by simp
      next
        case False
        with None have "(m(n \<mapsto> p)) T = None" by simp
        then have "ok (n + 1) ((m(n \<mapsto> p))(T \<mapsto> ?q)) ?h"
          using ok1 by (intro ok_new_target) (simp_all add: new_Instruction_def)
        moreover from False m2 have "m2(n \<mapsto> p) = (m(n \<mapsto> p))(T \<mapsto> ?q)"
          by (simp add: fun_upd_twist)
        ultimately show ?thesis by simp
      qed
      with h2 lit show ?thesis by simp
    qed
  qed
qed

lemma header_Literal: "Literal (header st pre lit i) \<noteq> []"
  by (cases pre) (simp_all add: header_def)

lemma wf_step:
  assumes wf: "wf_state st" and st: "step st = Continue st'"
  shows "wf_state st'"
proof -
  obtain oc pre lit err d1 where gn: "GetNext (data st) = ((oc, pre, lit, err), d1)"
    by (metis prod.exhaust)
  obtain p h0 where f: "fetch st = (p, h0)" by (metis prod.exhaust)
  from wf f have F: "ok (offset st) (Instructions st) h0 \<and> p < length h0 \<and> Literal (h0 ! p) = [] \<and>
         (\<forall>k a. Instructions st k = Some a \<longrightarrow> k \<noteq> offset st \<longrightarrow> a \<noteq> p)"
    unfolding wf_state_def fetch_def by (rule ok_fetch)
  show ?thesis
  proof (cases err)
    case (Some e)
    with st gn f have ne: "e \<noteq> EOF" "e \<noteq> ErrUnexpectedEOF"
      by (auto simp: step_def Let_def split: if_splits)
    from step_db [OF gn [unfolded Some] ne f] st
    have "st' = st\<lparr>data := d1, offset := offset st + 1,
            Instructions := (Instructions st)(offset st \<mapsto> p),
            heap := h0[p := (h0 ! p)\<lparr>Offset := offset st, Mnemonic := Error e,
                                     Literal := Literal (h0 ! p) @ [lit]\<rparr>]\<rparr>" by simp
    moreover have "ok (offset st + 1) ((Instructions st)(offset st \<mapsto> p)) (h0[p := i])" for i
      using F by (intro ok_store) simp_all
    ultimately show ?thesis by (simp add: wf_state_def)
  next
    case None
    from st gn None obtain o' where oc: "oc = Some o'"
      by (cases oc) (auto simp: step_def Let_def split: prod.splits)
    obtain e1 i6 d2 where enc: "OpCode_Encode o' d1 (header st pre lit (h0 ! p)) = (e1, i6, d2)"
      by (metis prod.exhaust)
    from st gn None oc f enc obtain ops T is_off e2
      where so: "StringifyOperands (Encoder o') i6 = Some (ops, T, is_off, e2)"
      by (cases "StringifyOperands (Encoder o') i6"; cases pre)
         (auto simp: step_def Let_def header_def split: prod.splits)
    obtain m2 h2 where att: "(if is_off then attach_label ops T (Instructions st, h0[p := i6\<lparr>Operands := ops\<rparr>])
          else (Instructions st, h0[p := i6\<lparr>Operands := ops\<rparr>])) = (m2, h2)"
      by (metis prod.exhaust)
    from step_ok [OF gn [unfolded None oc] f enc so att] st obtain out
      where st': "st' = st\<lparr>data := d2,
            offset := offset st + int (length (Literal (h2 ! p))),
            Instructions := m2(offset st \<mapsto> p), heap := h2, stdout := out\<rparr>" by auto
    from F att have C: "ok (offset st + 1) (m2(offset st \<mapsto> p)) h2 \<and>
        Literal (h2 ! p) = Literal (i6\<lparr>Operands := ops\<rparr>)"
      by (intro commit_ok) simp_all
    from enc have "extends d1 (header st pre lit (h0 ! p)) d2 i6" by (rule OpCode_Encode_extends)
    then have "Literal i6 \<noteq> []" using header_Literal [of st pre lit "h0 ! p"]
      by (auto simp: extends_def)
    with C have "offset st + 1 \<le> offset st + int (length (Literal (h2 ! p)))"
      by (cases "Literal i6") simp_all
    with C have "ok (offset st + int (length (Literal (h2 ! p)))) (m2(offset st \<mapsto> p)) h2"
      by (blast intro: ok_mono)
    with st' show ?thesis by (simp add: wf_state_def)
  qed
qed

lemma wf_init: "wf_state (init_state bs)"
  by (simp add: wf_state_def init_state_def ok_def)

lemma wf_steps: "wf_state st \<Longrightarrow> steps n st = Some st' \<Longrightarrow> wf_state st'"
proof (induction n arbitrary: st)
  case 0
  then show ?case by simp
next
  case (Suc n)
  then show ?case
    by (cases "step st") (auto dest: wf_step)
qed

subsection \<open>Runs of the loop\<close>

lemma reachable_wf: "steps n (init_state input) = Some st \<Longrightarrow> wf_state st"
  using wf_init wf_steps by blast

lemma StringifyOperands_D:
  "StringifyOperands Enc_D i =
     Some (''offset_'' @ fmt_0x 8 (branch_target i) @ ''h'', branch_target i, True,
           snd (BytesToIntSigned (Displacement i)))"
  by (simp add: branch_target_def Let_def split: prod.splits)

text \<open>What a turn that decodes a \<^verbatim>\<open>D\<close> instruction leaves behind.\<close>

lemma step_D:
  assumes wf: "wf_state st"
    and gn: "GetNext (data st) = ((Some oc, pre, lit, None), d1)"
    and D: "Encoder oc = Enc_D"
    and st: "step st = Continue st'"
  shows "\<exists>i. instruction_at st' (offset st) = Some i \<and>
             Operands i = ''offset_'' @ fmt_0x 8 (branch_target i) @ ''h'' \<and>
             Instructions st' (branch_target i) \<noteq> None \<and>
             (Instructions st (branch_target i) \<noteq> None \<or> branch_target i \<noteq> offset st \<longrightarrow>
                map_option Label (instruction_at st' (branch_target i)) = Some (Operands i))"
proof -
  obtain p h0 where f: "fetch st = (p, h0)" by (metis prod.exhaust)
  from wf f have F: "ok (offset st) (Instructions st) h0 \<and> p < length h0 \<and> Literal (h0 ! p) = [] \<and>
         (\<forall>k a. Instructions st k = Some a \<longrightarrow> k \<noteq> offset st \<longrightarrow> a \<noteq> p)"
    unfolding wf_state_def fetch_def by (rule ok_fetch)
  then have p: "p < length h0" by simp
  obtain e1 i6 d2 where enc: "OpCode_Encode oc d1 (header st pre lit (h0 ! p)) = (e1, i6, d2)"
    by (metis prod.exhaust)
  let ?T = "branch_target i6"
  let ?ops = "''offset_'' @ fmt_0x 8 ?T @ ''h''"
  let ?i7 = "i6\<lparr>Operands := ?ops\<rparr>"
  let ?h1 = "h0[p := ?i7]"
  let ?m = "Instructions st"
  have so: "StringifyOperands (Encoder oc) i6 = Some (?ops, ?T, True, snd (BytesToIntSigned (Displacement i6)))"
    unfolding D by (rule StringifyOperands_D)
  obtain m2 h2 where att: "attach_label ?ops ?T (?m, ?h1) = (m2, h2)"
    by (metis prod.exhaust)
  then have att': "(if True then attach_label ?ops ?T (?m, ?h1) else (?m, ?h1)) = (m2, h2)"
    by simp
  from step_ok [OF gn f enc so att'] st obtain out
    where st': "st' = st\<lparr>data := d2,
            offset := offset st + int (length (Literal (h2 ! p))),
            Instructions := m2(offset st \<mapsto> p), heap := h2, stdout := out\<rparr>" by auto
  have bt: "branch_target (x\<lparr>Label := s\<rparr>) = branch_target x" 
       "branch_target (x\<lparr>Operands := s\<rparr>) = branch_target x" for x s
    by (simp_all add: branch_target_def)
  show ?thesis
  proof (cases "?m ?T")
    case (Some q)
    with att have m2: "m2 = ?m(?T \<mapsto> q)" and h2: "h2 = ?h1[q := (?h1 ! q)\<lparr>Label := ?ops\<rparr>]"
      by (simp_all add: attach_label_def)
    from F Some have q: "q < length h0" by (blast dest: okD1)
    have hq: "h2 ! q = (?h1 ! q)\<lparr>Label := ?ops\<rparr>" using q h2 by simp
    have hp: "h2 ! p = (if q = p then ?i7\<lparr>Label := ?ops\<rparr> else ?i7)"
      using p h2 by simp
    have same: "?T = offset st \<Longrightarrow> q = p"
      using Some f by (simp add: fetch_def)
    let ?i = "h2 ! p"
    have 1: "instruction_at st' (offset st) = Some ?i"
      using st' by (simp add: instruction_at_def)
    have 2: "Operands ?i = ?ops" "branch_target ?i = ?T"
      using hp by (simp_all add: bt)
    have 3: "Instructions st' ?T \<noteq> None" using st' m2 by simp
    have 4: "map_option Label (instruction_at st' ?T) = Some ?ops"
    proof (cases "?T = offset st")
      case True
      with same have "q = p" by simp
      with True st' hp show ?thesis by (simp add: instruction_at_def)
    next
      case False
      with st' m2 hq show ?thesis by (simp add: instruction_at_def)
    qed
    from 1 2 3 4 show ?thesis by simp
  next
    case None
    let ?x = "new_Instruction\<lparr>Offset := ?T, Label := ?ops\<rparr>"
    from att None have m2: "m2 = ?m(?T \<mapsto> length h0)" and h2: "h2 = ?h1 @ [?x]"
      by (auto simp: attach_label_def alloc_def)
    let ?i = "h2 ! p"
    have hp: "?i = ?i7" using p h2 by (simp add: nth_append)
    have 1: "instruction_at st' (offset st) = Some ?i"
      using st' by (simp add: instruction_at_def)
    have 2: "Operands ?i = ?ops" "branch_target ?i = ?T"
      using hp by (simp_all add: bt)
    have 3: "Instructions st' ?T \<noteq> None" using st' m2 by simp
    have 4: "map_option Label (instruction_at st' ?T) = Some ?ops" if "?T \<noteq> offset st"
      using that st' m2 h2 by (simp add: instruction_at_def nth_append)
    from 1 2 3 4 None show ?thesis by auto
  qed
qed

lemma steps_Suc_end:
  "steps (Suc n) s = Some s'' \<longleftrightarrow> (\<exists>s'. steps n s = Some s' \<and> step s' = Continue s'')"
proof (induction n arbitrary: s)
  case 0
  show ?case by (cases "step s") auto
next
  case (Suc n)
  show ?case
  proof (cases "step s")
    case (Continue t)
    with Suc.IH [of t] show ?thesis by simp
  qed simp_all
qed

lemma steps_add: "steps (a + b) s = Option.bind (steps a s) (steps b)"
proof (induction a arbitrary: s)
  case 0
  show ?case by simp
next
  case (Suc a)
  then show ?case by (cases "step s") simp_all
qed

lemma steps_Parse_Instructions:
  "steps n s = Some s' \<Longrightarrow> Parse_Instructions s = Parse_Instructions s'"
proof (induction n arbitrary: s)
  case 0
  then show ?case by simp
next
  case (Suc n)
  then show ?case
    by (cases "step s") (simp_all add: Parse_Instructions.simps [of s])
qed

lemma attach_label_dom:
  assumes "attach_label ops T (m, h) = (m2, h2)" and "m k \<noteq> None"
  shows "m2 k \<noteq> None"
  using assms by (auto simp: attach_label_def Let_def split: prod.splits)

lemma step_dom_mono:
  assumes st: "step st = Continue st'" and k: "Instructions st k \<noteq> None"
  shows "Instructions st' k \<noteq> None"
proof -
  obtain oc pre lit err d1 where gn: "GetNext (data st) = ((oc, pre, lit, err), d1)"
    by (metis prod.exhaust)
  obtain p h0 where f: "fetch st = (p, h0)" by (metis prod.exhaust)
  show ?thesis
  proof (cases err)
    case (Some e)
    with st gn f have ne: "e \<noteq> EOF" "e \<noteq> ErrUnexpectedEOF"
      by (auto simp: step_def Let_def split: if_splits)
    from step_db [OF gn [unfolded Some] ne f] st k show ?thesis by auto
  next
    case None
    from st gn None obtain o' where oc: "oc = Some o'"
      by (cases oc) (auto simp: step_def Let_def split: prod.splits)
    obtain e1 i6 d2 where enc: "OpCode_Encode o' d1 (header st pre lit (h0 ! p)) = (e1, i6, d2)"
      by (metis prod.exhaust)
    from st gn None oc f enc obtain ops T is_off e2
      where so: "StringifyOperands (Encoder o') i6 = Some (ops, T, is_off, e2)"
      by (cases "StringifyOperands (Encoder o') i6"; cases pre)
         (auto simp: step_def Let_def header_def split: prod.splits)
    obtain m2 h2 where att: "(if is_off then attach_label ops T (Instructions st, h0[p := i6\<lparr>Operands := ops\<rparr>])
          else (Instructions st, h0[p := i6\<lparr>Operands := ops\<rparr>])) = (m2, h2)"
      by (metis prod.exhaust)
    from att k have "m2 k \<noteq> None"
      by (cases is_off) (auto dest: attach_label_dom)
    with step_ok [OF gn [unfolded None oc] f enc so att] st show ?thesis by auto
  qed
qed

lemma steps_dom_mono:
  "steps n s = Some s' \<Longrightarrow> Instructions s k \<noteq> None \<Longrightarrow> Instructions s' k \<noteq> None"
proof (induction n arbitrary: s)
  case 0
  then show ?case by simp
next
  case (Suc n)
  then show ?case
    by (cases "step s") (auto dest: step_dom_mono)
qed

subsection \<open>Facts the claims below rest on\<close>

lemma GetExtendedOpcode_miss:
  assumes "OpCodesExt b = Some opcode_map"
    and "rest d = modrm # tail"
    and "opcode_map (Reg (ParseModRM modrm)) = None"
  shows "\<exists>d'. GetExtendedOpcode b d = ((None, Some (db b)), d') \<and> rest d' = rest d"
proof -
  from ReadByte_Cons [OF assms(2)] obtain d2 where rb: "ReadByte d = (Inr modrm, d2)"
    by blast
  then have "rest (UnreadByte d2) = rest d" by (rule UnreadByte_after_ReadByte)
  moreover from assms rb have "GetExtendedOpcode b d = ((None, Some (db b)), UnreadByte d2)"
    by (simp add: GetExtendedOpcode_def)
  ultimately show ?thesis by blast
qed

lemma GetNext_bad_extension:
  assumes "rest d = b # modrm # tail"
    and "Prefixes b = None"
    and "OpCodesExt b = Some opcode_map"
    and "opcode_map (Reg (ParseModRM modrm)) = None"
  shows "\<exists>d'. GetNext d = ((None, None, b, Some (db b)), d') \<and> rest d' = modrm # tail"
proof -
  from ReadByte_Cons [OF assms(1)] obtain d1
    where rb: "ReadByte d = (Inr b, d1)" and r1: "rest d1 = modrm # tail"
    by blast
  from GetExtendedOpcode_miss [OF assms(3) r1 assms(4)] obtain d2
    where ge: "GetExtendedOpcode b d1 = ((None, Some (db b)), d2)" and r2: "rest d2 = rest d1"
    by blast
  from rb ge assms(2) have "GetNext d = ((None, None, b, Some (db b)), d2)"
    by (simp add: GetNext_def db_def)
  with r1 r2 show ?thesis by simp
qed

lemma D1_has_no_extension_1:
  "case OpCodesExt 0xD1 of None \<Rightarrow> False | Some opcode_map \<Rightarrow> opcode_map 1 = None"
  by code_simp

lemma ParseModRM_C8: "ParseModRM 0xC8 = \<lparr>mLiteral = 0xC8, Mod = 3, Reg = 1, RM = 0\<rparr>"
  by code_simp

lemma Next_eq: "\<exists>b'. Next b n = (take n (rest b), b') \<and> rest b' = drop n (rest b)"
proof -
  obtain bs b' where "Next b n = (bs, b')" by (metis prod.exhaust)
  with Next_rest [of b n bs b'] show ?thesis by simp
qed

lemma Next_checked:
  "if n \<le> length (rest d)
   then \<exists>d'. Next d n = (take n (rest d), d') \<and> length (take n (rest d)) = n \<and>
             rest d' = drop n (rest d)
   else \<exists>disp d'. Next d n = (disp, d') \<and> length disp \<noteq> n"
proof -
  from Next_eq obtain b' where "Next d n = (take n (rest d), b')" "rest b' = drop n (rest d)"
    by blast
  then show ?thesis by auto
qed

lemma ParseModRM_05: "ParseModRM 0x05 = \<lparr>mLiteral = 0x05, Mod = 0, Reg = 0, RM = 5\<rparr>"
  by code_simp

lemma clflush_lea_mnemonics:
  "map_option oMnemonic (Option.bind (OpCodesExt 0xAE) (\<lambda>opcode_map. opcode_map 7)) = Some ''clflush''"
  "map_option oMnemonic (OpCodes 0x8D) = Some ''lea''"
  by code_simp+

text \<open>Filling the tables does not panic.\<close>

lemma init_tables_ok: "init_tables \<noteq> None"
proof
  assume "init_tables = None"
  moreover have "case init_tables of None \<Rightarrow> False | Some t \<Rightarrow> True" by code_simp
  ultimately show False by (simp only: option.case)
qed

lemma two_jumps_run:
  "(case steps 0 (init_state [0xEB, 0x02, 0xEB, 0x00, 0x90]) of None \<Rightarrow> False | Some sj \<Rightarrow>
      offset sj = 0 \<and>
      (case GetNext (data sj) of
         ((Some oc1, pre1, lit1, None), d1) \<Rightarrow> Encoder oc1 = Enc_D | _ \<Rightarrow> False)) \<and>
   (case steps 1 (init_state [0xEB, 0x02, 0xEB, 0x00, 0x90]) of None \<Rightarrow> False | Some sk \<Rightarrow>
      offset sk = 2 \<and>
      (case instruction_at sk 0 of None \<Rightarrow> False | Some i1 \<Rightarrow> branch_target i1 = 4) \<and>
      (case GetNext (data sk) of
         ((Some oc2, pre2, lit2, None), d2) \<Rightarrow> Encoder oc2 = Enc_D | _ \<Rightarrow> False)) \<and>
   (case steps 2 (init_state [0xEB, 0x02, 0xEB, 0x00, 0x90]) of None \<Rightarrow> False | Some sk' \<Rightarrow>
      (case instruction_at sk' 2 of None \<Rightarrow> False | Some i2 \<Rightarrow>
         branch_target i2 = 4 \<and> Operands i2 = ''offset_00000004h''))"
  by code_simp

lemma prefix_at_end:
  "snd (snd (snd (fst (GetNext (data (init_state [0x0F])))))) = Some ErrUnexpectedEOF"
  by code_simp

lemma repne_06: "Prefixes 0xF2 = Some Repne" "OpCodes 0x06 = None" "Repne \<noteq> Vex"
    "db 0x06 = Errorf ''db 06''"
  by (simp_all add: Prefixes_def Repne_def Vex_def) code_simp+

text \<open>Attaching a label to an instruction that exists overwrites its label.\<close>

lemma attach_label_assigns:
  assumes "m T = Some q" and "q < length h" and "attach_label ops T (m, h) = (m2, h2)"
  shows "m2 T = Some q \<and> h2 ! q = (h ! q)\<lparr>Label := ops\<rparr>"
  using assms by (auto simp: attach_label_def)

lemma relabel_run:
  "map_option Encoder (fst (fst (GetNext (NewBuffer [0xEB, 0x02])))) = Some Enc_D \<and>
   snd (snd (snd (fst (GetNext (NewBuffer [0xEB, 0x02]))))) = None \<and>
   (case step \<lparr>data = NewBuffer [0xEB, 0x02], offset = 0, Instructions = [4 \<mapsto> 0],
               heap = [new_Instruction\<lparr>Offset := 4, Label := ''earlier''\<rparr>], stdout = []\<rparr> of
      Continue s \<Rightarrow>
        (case instruction_at s 0 of None \<Rightarrow> False | Some i \<Rightarrow>
           branch_target i = 4 \<and> Operands i = ''offset_00000004h'')
    | _ \<Rightarrow> False)"
  by code_simp

section \<open>The claims\<close>

text \<open>
  C1. For the encodings \<^verbatim>\<open>O\<close> and \<^verbatim>\<open>OI\<close> the record of base literal \<open>B\<close> should sit
  under all eight bytes \<open>B..B+7\<close>. The loop that installs it stops one short: \<open>inc\<close>
  (base \<open>0x40\<close>, encoding \<^verbatim>\<open>O\<close>) is found under \<open>0x40\<close> and \<open>0x46\<close>, but \<open>0x47\<close>
  (\<open>inc edi\<close>) is in no table, and a file holding that byte alone is listed as
  \<open>db 47\<close>.
\<close>

theorem O_run_misses_eighth_byte:
  "map_option oMnemonic (OpCodes 0x40) = Some ''inc'' \<and>
   map_option Encoder (OpCodes 0x40) = Some Enc_O \<and>
   map_option oMnemonic (OpCodes 0x46) = Some ''inc'' \<and>
   OpCodes 0x47 = None \<and>
   map_option Mnemonic (swept_instruction [0x47] 0) = Some ''db 47''"
  by code_simp

text \<open>
  C2. The literals of the stored instructions, together with the bytes the sweep left
  unread, should add up to the input. They do not after a \<open>repne\<close> prefix (\<open>0xF2\<close>)
  followed by a byte that is not a plain opcode: on the file \<open>F2 06\<close> dispatch reads
  both bytes and puts neither back, the one instruction stored is \<open>db 06\<close> with the
  one-byte literal \<open>06\<close>, the offset moves on by one, and the sweep ends at offset 1
  with nothing left to read: one byte of literal for two bytes of input.
\<close>

theorem repne_miss_loses_a_byte:
  "map_option Mnemonic (swept_instruction [0xF2, 0x06] 0) = Some ''db 06'' \<and>
   map_option Literal (swept_instruction [0xF2, 0x06] 0) = Some [0x06] \<and>
   map_option stored_offsets (sweep [0xF2, 0x06]) = Some {0} \<and>
   map_option offset (sweep [0xF2, 0x06]) = Some 1 \<and>
   map_option (rest \<circ> data) (sweep [0xF2, 0x06]) = Some []"
  by (simp add: swept_instruction_def stored_offsets_def sweep_def init_state_def
        Parse_Instructions.simps step_def fetch_def GetNext_def NewBuffer_def ReadByte_def
        Reset_def repne_06 alloc_def new_Instruction_def instruction_at_def rest_def)

text \<open>
  C3. The byte \<open>0xAE\<close> with ModR/M reg field 7 should be \<open>clflush\<close> only after the
  prefix \<open>0x0F\<close>. The record (which says \<open>PrefixReq\<close>) sits in the extension table,
  and dispatch probes that table for every byte that is not a prefix: on the file
  \<open>AE 38\<close> dispatch returns the \<open>clflush\<close> record with no prefix, and the sweep
  stores \<open>clflush\<close> at offset 0.
\<close>

theorem clflush_without_prefix:
  "map_option oMnemonic (fst (fst (GetNext (NewBuffer [0xAE, 0x38])))) = Some ''clflush'' \<and>
   map_option PrefixReq (fst (fst (GetNext (NewBuffer [0xAE, 0x38])))) = Some True \<and>
   fst (snd (fst (GetNext (NewBuffer [0xAE, 0x38])))) = None \<and>
   snd (snd (snd (fst (GetNext (NewBuffer [0xAE, 0x38]))))) = None \<and>
   map_option Mnemonic (swept_instruction [0xAE, 0x38] 0) = Some ''clflush'' \<and>
   map_option Pre (swept_instruction [0xAE, 0x38] 0) = Some None"
  by code_simp

text \<open>
  C4, as stated: no instruction of the final map comes from a decode that ran out of
  bytes. It fails on the file \<open>B8 01\<close>: \<open>mov\<close> wants four immediate bytes and gets
  one, the encoder's \<^verbatim>\<open>unexpected EOF\<close> is printed, and the instruction is stored with
  the two bytes it has.
\<close>

theorem partial_instruction_is_stored:
  "map_option Mnemonic (swept_instruction [0xB8, 0x01] 0) = Some ''mov'' \<and>
   map_option Literal (swept_instruction [0xB8, 0x01] 0) = Some [0xB8, 0x01] \<and>
   map_option Immediate (swept_instruction [0xB8, 0x01] 0) = Some [0x01] \<and>
   map_option ImmSize (swept_instruction [0xB8, 0x01] 0) = Some 4 \<and>
   map_option stdout (sweep [0xB8, 0x01]) = Some [''Error encoding: unexpected EOF'']"
  by code_simp

text \<open>
  C4, amended. When dispatch itself runs out of bytes (\<^verbatim>\<open>GetNext\<close> returns
  \<^verbatim>\<open>io.ErrUnexpectedEOF\<close>: the buffer ends after a prefix byte, or at the ModR/M byte
  probed for an opcode extension), the sweep ends there and that turn stores nothing:
  the final map, the instructions it holds and the offset are those the turn started
  with.
\<close>

theorem dispatch_UnexpectedEOF_stores_nothing:
  assumes "steps n (init_state input) = Some st"
    and "GetNext (data st) = ((oc, pre, lit, Some ErrUnexpectedEOF), d')"
  shows "\<exists>st'. sweep input = Some st' \<and> Instructions st' = Instructions st \<and>
              (\<forall>k. instruction_at st' k = instruction_at st k) \<and> offset st' = offset st"
proof -
  obtain p h0 where f: "fetch st = (p, h0)" by (metis prod.exhaust)
  let ?st' = "st\<lparr>data := d', heap := h0\<rparr>"
  have "step st = Break ?st'" using assms(2) _ f by (rule step_break) simp
  then have "Parse_Instructions st = Some ?st'" by (simp add: Parse_Instructions.simps [of st])
  with assms(1) have sw: "sweep input = Some ?st'"
    by (simp add: sweep_def steps_Parse_Instructions)
  from assms(1) have wf: "wf_state st" by (rule reachable_wf)
  from f have "h0 = heap st \<or> h0 = heap st @ [new_Instruction]"
    by (auto simp: fetch_def alloc_def split: option.splits)
  moreover have "a < length (heap st)" if "Instructions st k = Some a" for k a
    using wf that unfolding wf_state_def by (rule okD1)
  ultimately have "instruction_at ?st' k = instruction_at st k" for k
    by (cases "Instructions st k") (auto simp: instruction_at_def nth_append)
  with sw show ?thesis by simp
qed

theorem dispatch_UnexpectedEOF_stores_nothing_witness:
  "\<exists>st'. sweep [0x0F] = Some st' \<and> Instructions st' = Map.empty \<and> offset st' = 0"
proof -
  obtain oc pre lit e d'
    where "GetNext (data (init_state [0x0F])) = ((oc, pre, lit, e), d')"
    by (metis prod.exhaust)
  with prefix_at_end
  have "GetNext (data (init_state [0x0F])) = ((oc, pre, lit, Some ErrUnexpectedEOF), d')"
    by simp
  moreover have "steps 0 (init_state [0x0F]) = Some (init_state [0x0F])" by simp
  ultimately show ?thesis
    using dispatch_UnexpectedEOF_stores_nothing [of 0 "[0x0F]" "init_state [0x0F]" oc pre lit d']
    by (auto simp: init_state_def)
qed

text \<open>
  C5. A byte \<open>b\<close> that is not a prefix and is a key of the extension table, followed by
  a ModR/M byte whose reg field has no record under \<open>b\<close>: at any point of any sweep, the
  turn stores at the current offset a \<open>db\<close> pseudo-instruction whose literal is the one
  byte \<open>b\<close>, moves the offset on by one, and leaves the ModR/M byte as the next byte to
  read, so the next turn starts decoding there.
\<close>

theorem bad_extension_is_one_byte_db:
  assumes "steps n (init_state input) = Some st"
    and "rest (data st) = b # modrm # tail"
    and "Prefixes b = None"
    and "OpCodesExt b = Some opcode_map"
    and "opcode_map (Reg (ParseModRM modrm)) = None"
  shows "\<exists>st' i. step st = Continue st' \<and>
           instruction_at st' (offset st) = Some i \<and>
           Offset i = offset st \<and> Literal i = [b] \<and>
           Mnemonic i = ''db '' @ fmt_0x 2 (uint b) \<and>
           offset st' = offset st + 1 \<and>
           rest (data st') = modrm # tail"
proof -
  from assms(1) have wf: "wf_state st" by (rule reachable_wf)
  from GetNext_bad_extension [OF assms(2-5)] obtain d'
    where gn: "GetNext (data st) = ((None, None, b, Some (db b)), d')"
      and r: "rest d' = modrm # tail"
    by blast
  obtain p h0 where f: "fetch st = (p, h0)" by (metis prod.exhaust)
  from wf f have F: "ok (offset st) (Instructions st) h0 \<and> p < length h0 \<and> Literal (h0 ! p) = [] \<and>
         (\<forall>k a. Instructions st k = Some a \<longrightarrow> k \<noteq> offset st \<longrightarrow> a \<noteq> p)"
    unfolding wf_state_def fetch_def by (rule ok_fetch)
  have "step st = Continue (st\<lparr>data := d', offset := offset st + 1,
            Instructions := (Instructions st)(offset st \<mapsto> p),
            heap := h0[p := (h0 ! p)\<lparr>Offset := offset st, Mnemonic := Error (db b),
                                     Literal := Literal (h0 ! p) @ [b]\<rparr>]\<rparr>)"
    using gn _ _ f by (rule step_db) (simp_all add: db_def)
  with F r show ?thesis
    by (simp add: instruction_at_def db_def)
qed

theorem bad_extension_is_one_byte_db_witness:
  "\<exists>st' i. step (init_state [0xD1, 0xC8]) = Continue st' \<and>
           instruction_at st' 0 = Some i \<and>
           Offset i = 0 \<and> Literal i = [0xD1] \<and>
           Mnemonic i = ''db d1'' \<and>
           offset st' = 1 \<and>
           rest (data st') = [0xC8]"
proof -
  from D1_has_no_extension_1 obtain opcode_map
    where e: "OpCodesExt 0xD1 = Some opcode_map" and m: "opcode_map 1 = None"
    by (auto split: option.splits)
  have h: "fmt_0x 2 (uint (0xD1 :: byte)) = ''d1''" by code_simp
  have "steps 0 (init_state [0xD1, 0xC8]) = Some (init_state [0xD1, 0xC8])" by simp
  moreover have "rest (data (init_state [0xD1, 0xC8])) = [0xD1, 0xC8]"
    by (simp add: init_state_def NewBuffer_def rest_def)
  moreover have "Prefixes 0xD1 = None" by (simp add: Prefixes_def)
  moreover have "opcode_map (Reg (ParseModRM 0xC8)) = None" by (simp add: ParseModRM_C8 m)
  ultimately show ?thesis
    using bad_extension_is_one_byte_db [of 0 "[0xD1, 0xC8]" "init_state [0xD1, 0xC8]" "0xD1" "0xC8" "[]" opcode_map] e h
    by (simp add: init_state_def)
qed

text \<open>
  C6. The operand string of a \<^verbatim>\<open>D\<close> instruction should become the label of the
  instruction at its target. A branch to itself breaks this: on the file \<open>EB FE\<close>
  (\<open>jmp\<close> to offset 0, its own offset) the label is attached to a fresh object stored
  under offset 0, and the map entry is then overwritten with the instruction itself,
  whose label is still empty.
\<close>

theorem self_branch_loses_label:
  "map_option Mnemonic (swept_instruction [0xEB, 0xFE] 0) = Some ''jmp'' \<and>
   map_option branch_target (swept_instruction [0xEB, 0xFE] 0) = Some 0 \<and>
   map_option Operands (swept_instruction [0xEB, 0xFE] 0) = Some ''offset_00000000h'' \<and>
   map_option Label (swept_instruction [0xEB, 0xFE] 0) = Some []"
  by code_simp

text \<open>
  C7. \<^verbatim>\<open>ParseDisplacement\<close> needs 4 bytes for mod 00 with rm 5, none for mod 00 with
  another rm, 1 for mod 01, 4 for mod 10, none for mod 11, and \<open>sz\<close> bytes when there is
  no ModR/M. When that many bytes remain it returns exactly those bytes with no error
  and leaves the rest of the buffer; when fewer remain it fails with
  \<^verbatim>\<open>io.ErrUnexpectedEOF\<close>.
\<close>

theorem ParseDisplacement_consumes_by_mode:
  assumes "need = (case modrm of
                     None \<Rightarrow> sz
                   | Some m \<Rightarrow> if Mod m = 0 \<and> RM m = 5 then 4
                               else if Mod m = 0 then 0
                               else if Mod m = 1 then 1
                               else if Mod m = 2 then 4
                               else 0)"
    and "case modrm of None \<Rightarrow> True | Some m \<Rightarrow> Mod m \<in> {0, 1, 2, 3}"
  shows "if need \<le> length (rest d)
         then \<exists>d'. ParseDisplacement modrm d sz = ((take need (rest d), None), d') \<and>
                      rest d' = drop need (rest d)
         else \<exists>disp d'. ParseDisplacement modrm d sz = ((disp, Some ErrUnexpectedEOF), d')"
proof (cases modrm)
  case None
  with assms(1) have "need = sz" by simp
  with None Next_checked [of sz d] show ?thesis
    by (auto simp: ParseDisplacement_def)
next
  case (Some m)
  with assms(2) consider "Mod m = 0" "RM m = 5" | "Mod m = 0" "RM m \<noteq> 5" | "Mod m = 1"
    | "Mod m = 2" | "Mod m = 3"
    by auto
  then show ?thesis
  proof cases
    case 1
    with Some assms(1) have "need = 4" by simp
    with 1 Some Next_checked [of 4 d] show ?thesis
      by (auto simp: ParseDisplacement_def AM_REG_def REG_EBP_def)
  next
    case 2
    with Some assms(1) have "need = 0" by simp
    with 2 Some show ?thesis
      by (simp add: ParseDisplacement_def AM_REG_def REG_EBP_def)
  next
    case 3
    with Some assms(1) have need: "need = 1" by simp
    show ?thesis
    proof (cases "rest d")
      case Nil
      with ReadByte_Nil obtain d' where "ReadByte d = (Inl EOF, d')" by blast
      with 3 Some Nil need show ?thesis
        by (simp add: ParseDisplacement_def AM_REG_def AM_BYTE_OFFSET_def)
    next
      case (Cons x xs)
      with ReadByte_Cons obtain d' where "ReadByte d = (Inr x, d')" "rest d' = xs" by blast
      with 3 Some Cons need show ?thesis
        by (simp add: ParseDisplacement_def AM_REG_def AM_BYTE_OFFSET_def)
    qed
  next
    case 4
    with Some assms(1) have "need = 4" by simp
    with 4 Some Next_checked [of 4 d] show ?thesis
      by (auto simp: ParseDisplacement_def AM_REG_def AM_BYTE_OFFSET_def AM_DWORD_OFFSET_def)
  next
    case 5
    with Some assms(1) have "need = 0" by simp
    with 5 Some show ?thesis
      by (simp add: ParseDisplacement_def AM_REG_def AM_BYTE_OFFSET_def AM_DWORD_OFFSET_def
            AM_DIRECT_def)
  qed
qed

theorem ParseDisplacement_consumes_by_mode_witness:
  "(\<exists>data'. ParseDisplacement (Some (ParseModRM 0x05)) (NewBuffer [1, 2, 3, 4, 9]) 0
              = (([1, 2, 3, 4], None), data') \<and> rest data' = [9]) \<and>
   (\<exists>disp data'. ParseDisplacement None (NewBuffer [1, 2]) 4 = ((disp, Some ErrUnexpectedEOF), data'))"
proof -
  have r1: "rest (NewBuffer [1, 2, 3, 4, 9]) = [1, 2, 3, 4, 9]"
    and r2: "rest (NewBuffer [1, 2]) = [1, 2]"
    by (simp_all add: NewBuffer_def rest_def)
  have a: "\<exists>data'. ParseDisplacement (Some (ParseModRM 0x05)) (NewBuffer [1, 2, 3, 4, 9]) 0
              = (([1, 2, 3, 4], None), data') \<and> rest data' = [9]"
    using ParseDisplacement_consumes_by_mode
            [where need = 4 and modrm = "Some (ParseModRM 0x05)" and sz = 0
               and d = "NewBuffer [1, 2, 3, 4, 9]"]
    by (simp add: ParseModRM_05 r1)
  have b: "\<exists>disp data'. ParseDisplacement None (NewBuffer [1, 2]) 4 = ((disp, Some ErrUnexpectedEOF), data')"
    using ParseDisplacement_consumes_by_mode
            [where need = 4 and modrm = None and sz = 4 and d = "NewBuffer [1, 2]"]
    by (simp add: r2)
  from a b show ?thesis by blast
qed

text \<open>
  C8. After the prefix \<open>0x0F\<close> and a byte that is neither a prefixed opcode nor
  \<open>0xAE\<close>, the pseudo-instruction should have the prefix byte as its literal. Dispatch
  returns the opcode byte \<open>0x00\<close> with the error \<open>db 0f\<close>, and the sweep appends that
  byte: on the file \<open>0F 06\<close> the instruction at offset 0 is \<open>db 0f\<close> with the literal
  \<open>00\<close>. (The second byte is put back: offset 1 holds \<open>db 06\<close>.)
\<close>

theorem vex_miss_literal_is_zero:
  "map_option Mnemonic (swept_instruction [0x0F, 0x06] 0) = Some ''db 0f'' \<and>
   map_option Literal (swept_instruction [0x0F, 0x06] 0) = Some [0x00] \<and>
   map_option Mnemonic (swept_instruction [0x0F, 0x06] 1) = Some ''db 06'' \<and>
   map_option Literal (swept_instruction [0x0F, 0x06] 1) = Some [0x06]"
  by code_simp

text \<open>
  C9. The comment of an instruction is \<^verbatim>\<open>; Illegal addressing mode.\<close> exactly when its
  mnemonic is \<open>clflush\<close> or \<open>lea\<close> and it has a ModR/M whose mod field is 3 (direct);
  every other instruction has the empty comment.
\<close>

theorem legality_comment_iff:
  "legality_comment i =
     Some (if (Mnemonic i = ''clflush'' \<or> Mnemonic i = ''lea'') \<and>
              (case Modrm i of None \<Rightarrow> False | Some m \<Rightarrow> Mod m = 3)
           then ''; Illegal addressing mode.'' else '''')"
proof -
  from clflush_lea_mnemonics obtain c l
    where "Option.bind (OpCodesExt 0xAE) (\<lambda>opcode_map. opcode_map 7) = Some c"
      and "oMnemonic c = ''clflush''" and "OpCodes 0x8D = Some l" and "oMnemonic l = ''lea''"
    by auto
  then show ?thesis
    by (auto simp: legality_comment_def illegal_mode_def AM_DIRECT_def split: option.splits)
qed

text \<open>
  C10. An instruction has one label, and attaching a label assigns it, whatever label
  was there before. From any well-formed state (the state a sweep starts in is one, and
  every state it reaches), let turn \<open>k\<close> decode a \<^verbatim>\<open>D\<close> instruction whose target
  already holds an instruction, with any label at all, or was the target of a \<^verbatim>\<open>D\<close>
  instruction decoded in an earlier turn \<open>j < k\<close> of the same run. Then after turn
  \<open>k\<close> the label stored at that offset is the operand string of the instruction
  decoded in turn \<open>k\<close>: the earlier label is replaced.
\<close>

theorem branch_label_replaces_prior_label:
  assumes "wf_state s0"
    and "steps k s0 = Some sk"
    and "GetNext (data sk) = ((Some oc2, pre2, lit2, None), d2)" and "Encoder oc2 = Enc_D"
    and "steps (Suc k) s0 = Some sk'"
    and "instruction_at sk' (offset sk) = Some i2"
    and "instruction_at sk (branch_target i2) = Some prior \<or>
         (j < k \<and> steps j s0 = Some sj \<and>
          GetNext (data sj) = ((Some oc1, pre1, lit1, None), d1) \<and> Encoder oc1 = Enc_D \<and>
          steps (Suc j) s0 = Some sj' \<and> instruction_at sj' (offset sj) = Some i1 \<and>
          branch_target i1 = branch_target i2)"
  shows "map_option Label (instruction_at sk' (branch_target i2)) = Some (Operands i2)"
proof -
  have wfk: "wf_state sk" using assms(1,2) by (rule wf_steps)
  have stk: "step sk = Continue sk'"
    using assms(2,5) unfolding steps_Suc_end by auto
  have present: "Instructions sk (branch_target i2) \<noteq> None"
    using assms(7)
  proof
    assume "instruction_at sk (branch_target i2) = Some prior"
    then show ?thesis by (auto simp: instruction_at_def)
  next
    assume e: "j < k \<and> steps j s0 = Some sj \<and>
          GetNext (data sj) = ((Some oc1, pre1, lit1, None), d1) \<and> Encoder oc1 = Enc_D \<and>
          steps (Suc j) s0 = Some sj' \<and> instruction_at sj' (offset sj) = Some i1 \<and>
          branch_target i1 = branch_target i2"
    then have wfj: "wf_state sj" using assms(1) by (blast intro: wf_steps)
    have stj: "step sj = Continue sj'"
      using e unfolding steps_Suc_end by auto
    from e have gj: "GetNext (data sj) = ((Some oc1, pre1, lit1, None), d1)"
      and Dj: "Encoder oc1 = Enc_D" by simp_all
    from step_D [OF wfj gj Dj stj] e
    have "Instructions sj' (branch_target i2) \<noteq> None" by auto
    moreover from e obtain n where "k = Suc j + n" by (auto simp: less_iff_Suc_add)
    with e assms(2) have "steps n sj' = Some sk"
      using steps_add [of "Suc j" n s0] by (simp del: steps.simps)
    ultimately show ?thesis by (rule steps_dom_mono [rotated])
  qed
  with step_D [OF wfk assms(3,4) stk] assms(6) show ?thesis by auto
qed

theorem branch_label_replaces_prior_label_witness:
  "map_option Label
     (instruction_at \<lparr>data = NewBuffer [0xEB, 0x02], offset = 0, Instructions = [4 \<mapsto> 0],
        heap = [new_Instruction\<lparr>Offset := 4, Label := ''earlier''\<rparr>], stdout = []\<rparr> 4)
     = Some ''earlier'' \<and>
   map_option Label
     (Option.bind
        (steps 1 \<lparr>data = NewBuffer [0xEB, 0x02], offset = 0, Instructions = [4 \<mapsto> 0],
           heap = [new_Instruction\<lparr>Offset := 4, Label := ''earlier''\<rparr>], stdout = []\<rparr>)
        (\<lambda>s. instruction_at s 4))
     = Some ''offset_00000004h'' \<and>
   map_option Label (Option.bind (steps 2 (init_state [0xEB, 0x02, 0xEB, 0x00, 0x90]))
                                 (\<lambda>s. instruction_at s 4)) = Some ''offset_00000004h''"
proof -
  let ?x = "new_Instruction\<lparr>Offset := 4, Label := ''earlier''\<rparr>"
  let ?s = "\<lparr>data = NewBuffer [0xEB, 0x02], offset = 0, Instructions = [4 \<mapsto> 0],
             heap = [?x], stdout = []\<rparr>"
  have wf: "wf_state ?s"
    by (simp add: wf_state_def ok_def new_Instruction_def)
  have prior: "instruction_at ?s 4 = Some ?x"
    by (simp add: instruction_at_def)
  obtain o' pre lit e d where g: "GetNext (NewBuffer [0xEB, 0x02]) = ((o', pre, lit, e), d)"
    by (metis prod.exhaust)
  with relabel_run obtain oc
    where gn: "GetNext (data ?s) = ((Some oc, pre, lit, None), d)" and D: "Encoder oc = Enc_D"
    by auto
  from relabel_run obtain s' i
    where st: "step ?s = Continue s'" and i: "instruction_at s' 0 = Some i"
      and t: "branch_target i = 4" and ops: "Operands i = ''offset_00000004h''"
    by (auto split: option.splits outcome.splits)
  from st have s1: "steps (Suc 0) ?s = Some s'" by simp
  have s0: "steps 0 ?s = Some ?s" by simp
  have "map_option Label (instruction_at s' (branch_target i)) = Some (Operands i)"
    using branch_label_replaces_prior_label [of ?s 0 ?s oc pre lit d s' i ?x] wf gn D s0 s1 i prior t
    by (simp del: steps.simps)
  with s1 t ops have a: "map_option Label (Option.bind (steps 1 ?s) (\<lambda>s. instruction_at s 4))
      = Some ''offset_00000004h''"
    by (simp del: steps.simps)
  let ?s0 = "init_state [0xEB, 0x02, 0xEB, 0x00, 0x90]"
  from two_jumps_run obtain sj sk sk' i1 i2 oc1 pre1 lit1 d1 oc2 pre2 lit2 d2
    where 0: "steps 0 ?s0 = Some sj" "offset sj = 0"
        "GetNext (data sj) = ((Some oc1, pre1, lit1, None), d1)" "Encoder oc1 = Enc_D"
      and 1: "steps 1 ?s0 = Some sk" "offset sk = 2" "instruction_at sk 0 = Some i1"
        "branch_target i1 = 4"
        "GetNext (data sk) = ((Some oc2, pre2, lit2, None), d2)" "Encoder oc2 = Enc_D"
      and 2: "steps 2 ?s0 = Some sk'" "instruction_at sk' 2 = Some i2" "branch_target i2 = 4"
        "Operands i2 = ''offset_00000004h''"
    by (auto split: option.splits prod.splits simp del: steps.simps)
  have "map_option Label (instruction_at sk' (branch_target i2)) = Some (Operands i2)"
    using branch_label_replaces_prior_label [of ?s0 1 sk oc2 pre2 lit2 d2 sk' i2 undefined 0 sj
        oc1 pre1 lit1 d1 sk i1] wf_init [of "[0xEB, 0x02, 0xEB, 0x00, 0x90]"] 0 1 2
    by (simp add: numeral_2_eq_2 del: steps.simps)
  with 2 have b: "map_option Label (Option.bind (steps 2 ?s0) (\<lambda>s. instruction_at s 4))
      = Some ''offset_00000004h''"
    by (simp del: steps.simps)
  from prior a b show ?thesis by (simp del: steps.simps)
qed

end
